theory Spec2Isabelle
  imports Complex_Main "HOL-Library.Word"
begin

section \<open>JavaScript strings\<close>

text \<open>
  A JavaScript string is a sequence of UTF-16 code units. All the characters the
  service compares against (the ten heavenly stems, the whitespace set, the ASCII
  range) lie in the Basic Multilingual Plane, so one character is one code unit.
\<close>

type_synonym code_unit = "16 word"
type_synonym jsstring = "code_unit list"

text \<open>ASCII text written as an Isabelle string literal, one code unit per character.\<close>

definition ascii :: "string \<Rightarrow> jsstring" where
  "ascii s = map (\<lambda>c. of_nat (of_char c)) s"

text \<open>
  The code units that \<^verbatim>\<open>String.prototype.trim\<close> removes: ECMAScript WhiteSpace
  (TAB, VT, FF, SP, NBSP, U+FEFF and the Unicode space separators U+1680,
  U+2000..U+200A, U+202F, U+205F, U+3000) and LineTerminator (LF, CR, U+2028, U+2029).
\<close>

definition isWhiteSpace :: "code_unit \<Rightarrow> bool" where
  "isWhiteSpace c \<longleftrightarrow>
     c = 0x0009 \<or> c = 0x000A \<or> c = 0x000B \<or> c = 0x000C \<or> c = 0x000D \<or> c = 0x0020 \<or>
     c = 0x00A0 \<or> c = 0x1680 \<or> (0x2000 \<le> c \<and> c \<le> 0x200A) \<or> c = 0x2028 \<or>
     c = 0x2029 \<or> c = 0x202F \<or> c = 0x205F \<or> c = 0x3000 \<or> c = 0xFEFF"

definition trimStart :: "jsstring \<Rightarrow> jsstring" where
  "trimStart s = dropWhile isWhiteSpace s"

definition trim :: "jsstring \<Rightarrow> jsstring" where
  "trim s = rev (trimStart (rev (trimStart s)))"

text \<open>\<^verbatim>\<open>s.charAt(i)\<close>: the one-unit string at index \<open>i\<close>, the empty string out of range.\<close>

definition charAt :: "jsstring \<Rightarrow> nat \<Rightarrow> jsstring" where
  "charAt s i = (if i < length s then [s ! i] else [])"

text \<open>\<^verbatim>\<open>xs.includes(x)\<close> on an array of strings.\<close>

definition array_includes :: "jsstring list \<Rightarrow> jsstring \<Rightarrow> bool" where
  "array_includes xs x \<longleftrightarrow> x \<in> set xs"

text \<open>\<^verbatim>\<open>s.includes(t)\<close> on strings: \<open>t\<close> occurs in \<open>s\<close> as a run of code units.\<close>

fun string_includes :: "jsstring \<Rightarrow> jsstring \<Rightarrow> bool" where
  "string_includes [] t = (t = [])"
| "string_includes (x # xs) t = (take (length t) (x # xs) = t \<or> string_includes xs t)"

section \<open>Stem polarity and the direction of the decade cycle\<close>

datatype Gender = MALE | FEMALE

datatype Polarity = YANG | YIN

text \<open>
  \<^verbatim>\<open>yangStems = [U+7532, U+4E19, U+620A, U+5E9A, U+58EC]\<close> (jia, bing, wu, geng, ren) and
  \<^verbatim>\<open>yinStems = [U+4E59, U+4E01, U+5DF1, U+8F9B, U+7678]\<close> (yi, ding, ji, xin, gui),
  the two local tables of \<^verbatim>\<open>getStemPolarity\<close>.
\<close>

definition yangStems :: "jsstring list" where
  "yangStems = [[0x7532], [0x4E19], [0x620A], [0x5E9A], [0x58EC]]"

definition yinStems :: "jsstring list" where
  "yinStems = [[0x4E59], [0x4E01], [0x5DF1], [0x8F9B], [0x7678]]"

text \<open>\<^verbatim>\<open>const firstChar = pillar.trim().charAt(0)\<close>\<close>

definition firstChar :: "jsstring \<Rightarrow> jsstring" where
  "firstChar pillar = charAt (trim pillar) 0"

text \<open>
  \<^verbatim>\<open>getStemPolarity\<close>: the empty string is falsy and yields the default at once;
  otherwise the first character of the trimmed pillar is looked up in the Yang table,
  then in the Yin table, and anything else falls back to Yang.
\<close>

definition getStemPolarity :: "jsstring \<Rightarrow> Polarity" where
  "getStemPolarity pillar =
     (if pillar = [] then YANG
      else if array_includes yangStems (firstChar pillar) then YANG
      else if array_includes yinStems (firstChar pillar) then YIN
      else YANG)"

text \<open>
  The direction computed at the start of \<^verbatim>\<open>generateLifeAnalysis\<close> from the year
  pillar and the gender: \<^verbatim>\<open>isForward\<close> is the polarity test of the branch the
  gender selects.
\<close>

definition isForward :: "jsstring \<Rightarrow> Gender \<Rightarrow> bool" where
  "isForward yearPillar gender =
     (let yearStemPolarity = getStemPolarity yearPillar
      in if gender = MALE then yearStemPolarity = YANG else yearStemPolarity = YIN)"

text \<open>
  \<^verbatim>\<open>daYunDirectionStr\<close>: the text U+987A U+884C " (Forward)" when forward and
  U+9006 U+884C " (Backward)" otherwise.
\<close>

definition str_forward :: jsstring where
  "str_forward = [0x987A, 0x884C] @ ascii '' (Forward)''"

definition str_backward :: jsstring where
  "str_backward = [0x9006, 0x884C] @ ascii '' (Backward)''"

definition daYunDirectionStr :: "jsstring \<Rightarrow> Gender \<Rightarrow> jsstring" where
  "daYunDirectionStr yearPillar gender =
     (if isForward yearPillar gender then str_forward else str_backward)"

section \<open>Numbers in the request: \<^verbatim>\<open>parseInt\<close> and number-to-string\<close>

text \<open>
  \<^verbatim>\<open>parseInt(s)\<close> with no radix: leading whitespace is skipped, an optional sign is
  read, a prefix \<^verbatim>\<open>0x\<close> or \<^verbatim>\<open>0X\<close> selects radix 16 (radix 10 otherwise), and the
  longest run of digits of that radix is the value; with no digit the result is NaN,
  here \<open>None\<close>. The source computes on IEEE doubles; the model computes on integers,
  which is the same value as long as every number involved has magnitude at most
  \<open>2^53\<close> (\<open>safe_age\<close> below).
\<close>

definition digitValue :: "code_unit \<Rightarrow> nat option" where
  "digitValue c =
     (if 0x30 \<le> c \<and> c \<le> 0x39 then Some (unat c - 0x30)
      else if 0x61 \<le> c \<and> c \<le> 0x7A then Some (unat c - 0x61 + 10)
      else if 0x41 \<le> c \<and> c \<le> 0x5A then Some (unat c - 0x41 + 10)
      else None)"

definition isRadixDigit :: "nat \<Rightarrow> code_unit \<Rightarrow> bool" where
  "isRadixDigit R c = (case digitValue c of Some d \<Rightarrow> d < R | None \<Rightarrow> False)"

definition radixValue :: "nat \<Rightarrow> jsstring \<Rightarrow> nat" where
  "radixValue R Z =
     foldl (\<lambda>acc c. acc * R + (case digitValue c of Some d \<Rightarrow> d | None \<Rightarrow> 0)) 0 Z"

definition parseInt :: "jsstring \<Rightarrow> int option" where
  "parseInt s =
     (let S = trimStart s;
          sign = (if take 1 S = [0x2D] then - 1 else 1);
          S1 = (if take 1 S = [0x2D] \<or> take 1 S = [0x2B] then drop 1 S else S);
          hex = (take 2 S1 = [0x30, 0x78] \<or> take 2 S1 = [0x30, 0x58]);
          R = (if hex then 16 else 10);
          S2 = (if hex then drop 2 S1 else S1);
          Z = takeWhile (isRadixDigit R) S2
      in if Z = [] then None else Some (sign * int (radixValue R Z)))"

text \<open>
  The text of an integer in a template literal (\<^verbatim>\<open>Number.prototype.toString\<close>):
  decimal digits, with a minus sign in front of a negative number. The digit \<open>d\<close> is the
  code unit \<open>48 + d\<close>.
\<close>

definition digitChar :: "nat \<Rightarrow> code_unit" where
  "digitChar d = of_nat (48 + d)"

fun digits :: "nat \<Rightarrow> jsstring" where
  "digits n = (if n < 10 then [digitChar n] else digits (n div 10) @ [digitChar (n mod 10)])"

declare digits.simps [simp del]

definition show_int :: "int \<Rightarrow> jsstring" where
  "show_int i = (if i < 0 then 0x2D # digits (nat (- i)) else digits (nat i))"

text \<open>
  The range of start ages on which the doubles of the source are the integers of the
  model: the largest number the request computes is \<^verbatim>\<open>startAgeInt + 29\<close>.
\<close>

definition safe_age :: "int \<Rightarrow> bool" where
  "safe_age n \<longleftrightarrow> \<bar>n\<bar> + 29 \<le> 2 ^ 53"

section \<open>The user's input and the request\<close>

text \<open>
  \<^verbatim>\<open>UserInput\<close>, with the fields the form fills. The three configuration strings are
  optional here (\<open>None\<close> is \<^verbatim>\<open>undefined\<close>): the service guards each of them with a
  truthiness test before it trims.
\<close>

record UserInput =
  name :: jsstring
  gender :: Gender
  birthYear :: jsstring
  yearPillar :: jsstring
  monthPillar :: jsstring
  dayPillar :: jsstring
  hourPillar :: jsstring
  startAge :: jsstring
  firstDaYun :: jsstring
  modelName :: "jsstring option"
  apiBaseUrl :: "jsstring option"
  apiKey :: "jsstring option"

text \<open>
  The data of the one \<^verbatim>\<open>fetch\<close> call: the address, the \<^verbatim>\<open>Authorization\<close> header, and
  in the body the model and the contents of the system and user messages. The method
  (POST), the content type, the response format and the temperature are constants.
\<close>

record Request =
  url :: jsstring
  authorization :: jsstring
  model :: jsstring
  system_content :: jsstring
  user_content :: jsstring

text \<open>\<^verbatim>\<open>const cleanApiKey = apiKey ? apiKey.trim() : ""\<close>\<close>

definition cleanApiKey :: "UserInput \<Rightarrow> jsstring" where
  "cleanApiKey input =
     (case apiKey input of None \<Rightarrow> [] | Some k \<Rightarrow> if k \<noteq> [] then trim k else [])"

text \<open>
  \<^verbatim>\<open>s.replace(/\/+$/, "")\<close>: the run of slashes at the end of the string is removed.
\<close>

definition stripTrailingSlashes :: "jsstring \<Rightarrow> jsstring" where
  "stripTrailingSlashes s = rev (dropWhile (\<lambda>c. c = 0x2F) (rev s))"

text \<open>\<^verbatim>\<open>const cleanBaseUrl = apiBaseUrl ? apiBaseUrl.trim().replace(/\/+$/, "") : ""\<close>\<close>

definition cleanBaseUrl :: "UserInput \<Rightarrow> jsstring" where
  "cleanBaseUrl input =
     (case apiBaseUrl input of
        None \<Rightarrow> []
      | Some u \<Rightarrow> if u \<noteq> [] then stripTrailingSlashes (trim u) else [])"

text \<open>
  \<^verbatim>\<open>const targetModel = modelName && modelName.trim() ? modelName.trim() : "[O]gemini-3-pro-preview"\<close>
\<close>

definition default_model :: jsstring where
  "default_model = ascii ''[O]gemini-3-pro-preview''"

definition targetModel :: "UserInput \<Rightarrow> jsstring" where
  "targetModel input =
     (case modelName input of
        None \<Rightarrow> default_model
      | Some m \<Rightarrow> if m \<noteq> [] \<and> trim m \<noteq> [] then trim m else default_model)"

text \<open>\<^verbatim>\<open>/[^\x00-\x7F]/.test(s)\<close>: some code unit of the string is above 0x7F.\<close>

definition hasNonAscii :: "jsstring \<Rightarrow> bool" where
  "hasNonAscii s = list_ex (\<lambda>c. 0x7F < c) s"

text \<open>
  \<^verbatim>\<open>const startAgeInt = parseInt(input.startAge) || 1\<close>: NaN and zero are falsy.
\<close>

definition startAgeInt :: "UserInput \<Rightarrow> int" where
  "startAgeInt input =
     (case parseInt (startAge input) of None \<Rightarrow> 1 | Some n \<Rightarrow> if n = 0 then 1 else n)"

text \<open>
  \<^verbatim>\<open>genderStr\<close>: U+7537 " (" U+4E7E U+9020 ")" for a male, U+5973 " (" U+5764 U+9020 ")"
  otherwise.
\<close>

definition str_male :: jsstring where
  "str_male =
     [0x7537, 0x0020, 0x0028, 0x4E7E, 0x9020, 0x0029]"

definition str_female :: jsstring where
  "str_female =
     [0x5973, 0x0020, 0x0028, 0x5764, 0x9020, 0x0029]"

definition genderStr :: "UserInput \<Rightarrow> jsstring" where
  "genderStr input = (if gender input = MALE then str_male else str_female)"

text \<open>
  \<^verbatim>\<open>directionExample\<close>: one of two fixed sentences, the forward one naming the step
  after U+620A U+7533 as U+5DF1 U+9149, the backward one as U+4E01 U+672A.
\<close>

definition str_example_forward :: jsstring where
  "str_example_forward =
     [0x4F8B, 0x5982, 0xFF1A, 0x7B2C, 0x4E00, 0x6B65, 0x662F, 0x3010, 0x620A, 0x7533, 0x3011,
     0xFF0C, 0x7B2C, 0x4E8C, 0x6B65, 0x5219, 0x662F, 0x3010, 0x5DF1, 0x9149, 0x3011, 0xFF08,
     0x987A, 0x6392, 0xFF09]"

definition str_example_backward :: jsstring where
  "str_example_backward =
     [0x4F8B, 0x5982, 0xFF1A, 0x7B2C, 0x4E00, 0x6B65, 0x662F, 0x3010, 0x620A, 0x7533, 0x3011,
     0xFF0C, 0x7B2C, 0x4E8C, 0x6B65, 0x5219, 0x662F, 0x3010, 0x4E01, 0x672A, 0x3011, 0xFF08,
     0x9006, 0x6392, 0xFF09]"

definition directionExample :: "UserInput \<Rightarrow> jsstring" where
  "directionExample input =
     (if isForward (yearPillar input) (gender input) then str_example_forward
      else str_example_backward)"

text \<open>
  The constant text of the template literal \<^verbatim>\<open>userPrompt\<close>, in the order of the
  source, cut at each interpolation. \<open>tpl_0\<close> to \<open>tpl_13\<close> are the text before the
  interpolations of the first thirteen expressions and of \<^verbatim>\<open>directionExample\<close>
  (the heading, the subject's facts, the four pillars, the decade-cycle parameters and
  steps 1 and 2 of the algorithm); \<open>tpl_14\<close> is the heading of step 3.
\<close>

definition str_name_missing :: jsstring where
  "str_name_missing =
     [0x672A, 0x63D0, 0x4F9B]"

definition str_yang :: jsstring where
  "str_yang =
     [0x9633]"

definition str_yin :: jsstring where
  "str_yin =
     [0x9634]"

definition tpl_0 :: jsstring where
  "tpl_0 =
     [0x000A] @ ascii ''    '' @ [0x8BF7, 0x6839, 0x636E, 0x4EE5, 0x4E0B, 0x002A, 0x002A,
     0x5DF2, 0x7ECF, 0x6392, 0x597D, 0x7684, 0x002A, 0x002A, 0x516B, 0x5B57, 0x56DB, 0x67F1,
     0x548C, 0x002A, 0x002A, 0x6307, 0x5B9A, 0x7684, 0x5927, 0x8FD0, 0x4FE1, 0x606F, 0x002A,
     0x002A, 0x8FDB, 0x884C, 0x5206, 0x6790, 0x3002, 0x000A] @ ascii ''    '' @ [0x000A] @
     ascii ''    '' @ [0x3010, 0x57FA, 0x672C, 0x4FE1, 0x606F, 0x3011, 0x000A] @
     ascii ''    '' @ [0x6027, 0x522B, 0xFF1A]"

definition tpl_1 :: jsstring where
  "tpl_1 =
     [0x000A] @ ascii ''    '' @ [0x59D3, 0x540D, 0xFF1A]"

definition tpl_2 :: jsstring where
  "tpl_2 =
     [0x000A] @ ascii ''    '' @ [0x51FA, 0x751F, 0x5E74, 0x4EFD, 0xFF1A]"

definition tpl_3 :: jsstring where
  "tpl_3 =
     [0x5E74, 0x0020, 0x0028, 0x9633, 0x5386, 0x0029, 0x000A] @ ascii ''    '' @ [0x000A] @
     ascii ''    '' @ [0x3010, 0x516B, 0x5B57, 0x56DB, 0x67F1, 0x3011, 0x000A] @
     ascii ''    '' @ [0x5E74, 0x67F1, 0xFF1A]"

definition tpl_4 :: jsstring where
  "tpl_4 =
     [0x0020, 0x0028, 0x5929, 0x5E72, 0x5C5E, 0x6027, 0xFF1A]"

definition tpl_5 :: jsstring where
  "tpl_5 =
     [0x0029, 0x000A] @ ascii ''    '' @ [0x6708, 0x67F1, 0xFF1A]"

definition tpl_6 :: jsstring where
  "tpl_6 =
     [0x000A] @ ascii ''    '' @ [0x65E5, 0x67F1, 0xFF1A]"

definition tpl_7 :: jsstring where
  "tpl_7 =
     [0x000A] @ ascii ''    '' @ [0x65F6, 0x67F1, 0xFF1A]"

definition tpl_8 :: jsstring where
  "tpl_8 =
     [0x000A] @ ascii ''    '' @ [0x000A] @ ascii ''    '' @ [0x3010, 0x5927, 0x8FD0, 0x6838,
     0x5FC3, 0x53C2, 0x6570, 0x3011, 0x000A] @ ascii ''    1. '' @ [0x8D77, 0x8FD0, 0x5E74,
     0x9F84, 0xFF1A]"

definition tpl_9 :: jsstring where
  "tpl_9 =
     [0x0020, 0x5C81, 0x0020, 0x0028, 0x865A, 0x5C81, 0x0029, 0x3002, 0x000A] @
     ascii ''    2. '' @ [0x7B2C, 0x4E00, 0x6B65, 0x5927, 0x8FD0, 0xFF1A]"

definition tpl_10 :: jsstring where
  "tpl_10 =
     [0x3002, 0x000A] @ ascii ''    3. '' @ [0x002A, 0x002A, 0x6392, 0x5E8F, 0x65B9, 0x5411,
     0x002A, 0x002A, 0xFF1A]"

definition tpl_11 :: jsstring where
  "tpl_11 =
     [0x3002, 0x000A] @ ascii ''    '' @ [0x000A] @ ascii ''    '' @ [0x3010, 0x5FC5, 0x987B,
     0x6267, 0x884C, 0x7684, 0x7B97, 0x6CD5, 0x0020, 0x002D, 0x0020, 0x5927, 0x8FD0, 0x5E8F,
     0x5217, 0x751F, 0x6210, 0x3011, 0x000A] @ ascii ''    '' @ [0x8BF7, 0x4E25, 0x683C,
     0x6309, 0x7167, 0x4EE5, 0x4E0B, 0x6B65, 0x9AA4, 0x751F, 0x6210, 0x6570, 0x636E, 0xFF1A,
     0x000A] @ ascii ''    '' @ [0x000A] @ ascii ''    1. '' @ [0x002A, 0x002A, 0x9501,
     0x5B9A, 0x7B2C, 0x4E00, 0x6B65, 0x002A, 0x002A, 0xFF1A, 0x786E, 0x8BA4, 0x3010]"

definition tpl_12 :: jsstring where
  "tpl_12 =
     [0x3011, 0x4E3A, 0x7B2C, 0x4E00, 0x6B65, 0x5927, 0x8FD0, 0x3002, 0x000A] @
     ascii ''    2. '' @ [0x002A, 0x002A, 0x8BA1, 0x7B97, 0x5E8F, 0x5217, 0x002A, 0x002A,
     0xFF1A, 0x6839, 0x636E, 0x516D, 0x5341, 0x7532, 0x5B50, 0x987A, 0x5E8F, 0x548C, 0x65B9,
     0x5411, 0xFF08]"

definition tpl_13 :: jsstring where
  "tpl_13 =
     [0xFF09, 0xFF0C, 0x63A8, 0x7B97, 0x51FA, 0x63A5, 0x4E0B, 0x6765, 0x7684, 0x0020, 0x0039,
     0x0020, 0x6B65, 0x5927, 0x8FD0, 0x3002, 0x000A] @ ascii ''       ''"

definition tpl_14 :: jsstring where
  "tpl_14 =
     [0x000A] @ ascii ''    3. '' @ [0x002A, 0x002A, 0x586B, 0x5145] @ ascii '' JSON'' @
     [0x002A, 0x002A, 0xFF1A, 0x000A] @ ascii ''       ''"

text \<open>
  The constant text of the four age-band lines of step 3:
  \<^verbatim>\<open>- Age 1 \<close>U+5230\<^verbatim>\<open> \<close> (U+5230 is "to"); \<^verbatim>\<open>: daYun = "\<close>U+7AE5 U+9650\<^verbatim>\<open>"\<close> (the
  childhood limit); the line break with \<^verbatim>\<open>- Age \<close>; \<^verbatim>\<open> \<close>U+5230\<^verbatim>\<open> \<close>; and the labels
  \<^verbatim>\<open>: daYun = [\<close>U+7B2C\<^verbatim>\<open>k\<close>U+6B65 U+5927 U+8FD0 of the first three decade steps, the
  first followed by \<^verbatim>\<open>: \<close> and the first decade pillar. \<open>tpl_tail\<close> starts with the
  line \<^verbatim>\<open>- ...\<close>U+4EE5 U+6B64 U+7C7B U+63A8 U+76F4 U+5230\<^verbatim>\<open> 100 \<close>U+5C81 ("and so on
  until age 100") and holds the rest of the prompt.
\<close>

definition tpl_age_1_to :: jsstring where
  "tpl_age_1_to =
     ascii ''- Age 1 '' @ [0x5230, 0x0020]"

definition tpl_childhood :: jsstring where
  "tpl_childhood =
     ascii '': daYun = '' @ [0x0022, 0x7AE5, 0x9650, 0x0022]"

definition tpl_age :: jsstring where
  "tpl_age =
     [0x000A] @ ascii ''       - Age ''"

definition tpl_to :: jsstring where
  "tpl_to =
     [0x0020, 0x5230, 0x0020]"

definition tpl_step1 :: jsstring where
  "tpl_step1 =
     ascii '': daYun = ['' @ [0x7B2C, 0x0031, 0x6B65, 0x5927, 0x8FD0, 0x003A, 0x0020]"

definition tpl_step1_end :: jsstring where
  "tpl_step1_end =
     [0x005D]"

definition tpl_step2 :: jsstring where
  "tpl_step2 =
     ascii '': daYun = ['' @ [0x7B2C, 0x0032, 0x6B65, 0x5927, 0x8FD0, 0x005D]"

definition tpl_step3 :: jsstring where
  "tpl_step3 =
     ascii '': daYun = ['' @ [0x7B2C, 0x0033, 0x6B65, 0x5927, 0x8FD0, 0x005D]"

definition tpl_tail :: jsstring where
  "tpl_tail =
     [0x000A] @ ascii ''       - ...'' @ [0x4EE5, 0x6B64, 0x7C7B, 0x63A8, 0x76F4, 0x5230] @
     ascii '' 100 '' @ [0x5C81, 0x3002, 0x000A] @ ascii ''    '' @ [0x000A] @ ascii ''    ''
     @ [0x3010, 0x7279, 0x522B, 0x8B66, 0x544A, 0x3011, 0x000A] @ ascii ''    - '' @ [0x002A,
     0x002A] @ ascii ''daYun '' @ [0x5B57, 0x6BB5, 0x002A, 0x002A, 0xFF1A, 0x5FC5, 0x987B,
     0x586B, 0x5927, 0x8FD0, 0x5E72, 0x652F, 0xFF08, 0x0031, 0x0030, 0x5E74, 0x4E00, 0x53D8,
     0xFF09, 0xFF0C, 0x002A, 0x002A, 0x7EDD, 0x5BF9, 0x4E0D, 0x8981, 0x002A, 0x002A, 0x586B,
     0x6D41, 0x5E74, 0x5E72, 0x652F, 0x3002, 0x000A] @ ascii ''    - '' @ [0x002A, 0x002A] @
     ascii ''ganZhi '' @ [0x5B57, 0x6BB5, 0x002A, 0x002A, 0xFF1A, 0x586B, 0x5165, 0x8BE5,
     0x5E74, 0x4EFD, 0x7684, 0x002A, 0x002A, 0x6D41, 0x5E74, 0x5E72, 0x652F, 0x002A, 0x002A,
     0xFF08, 0x6BCF, 0x5E74, 0x4E00, 0x53D8, 0xFF0C, 0x4F8B, 0x5982] @ ascii '' 2024='' @
     [0x7532, 0x8FB0, 0xFF0C] @ ascii ''2025='' @ [0x4E59, 0x5DF3, 0xFF09, 0x3002, 0x000A] @
     ascii ''    '' @ [0x000A] @ ascii ''    '' @ [0x4EFB, 0x52A1, 0xFF1A, 0x000A] @
     ascii ''    1. '' @ [0x786E, 0x8BA4, 0x683C, 0x5C40, 0x4E0E, 0x559C, 0x5FCC, 0x3002,
     0x000A] @ ascii ''    2. '' @ [0x751F, 0x6210, 0x0020, 0x002A, 0x002A] @
     ascii ''1-100 '' @ [0x5C81, 0x0020, 0x0028, 0x865A, 0x5C81, 0x0029, 0x002A, 0x002A,
     0x0020, 0x7684, 0x4EBA, 0x751F, 0x6D41, 0x5E74, 0x004B, 0x7EBF, 0x6570, 0x636E, 0x3002,
     0x000A] @ ascii ''    3. '' @ [0x5728, 0x0020, 0x0060] @ ascii ''reason'' @ [0x0060,
     0x0020, 0x5B57, 0x6BB5, 0x4E2D, 0x63D0, 0x4F9B, 0x6D41, 0x5E74, 0x8BE6, 0x6279, 0x3002,
     0x000A] @ ascii ''    4. '' @ [0x751F, 0x6210, 0x5E26, 0x8BC4, 0x5206, 0x7684, 0x547D,
     0x7406, 0x5206, 0x6790, 0x62A5, 0x544A, 0xFF08, 0x5305, 0x542B, 0x6027, 0x683C, 0x5206,
     0x6790, 0x3001, 0x5E01, 0x5708, 0x4EA4, 0x6613, 0x5206, 0x6790, 0x3001, 0x53D1, 0x5C55,
     0x98CE, 0x6C34, 0x5206, 0x6790, 0xFF09, 0x3002, 0x000A] @ ascii ''    '' @ [0x000A] @
     ascii ''    '' @ [0x8BF7, 0x4E25, 0x683C, 0x6309, 0x7167, 0x7CFB, 0x7EDF, 0x6307,
     0x4EE4, 0x751F, 0x6210] @ ascii '' JSON '' @ [0x6570, 0x636E, 0x3002, 0x000A, 0x0020,
     0x0020]"

text \<open>
  The part of \<^verbatim>\<open>userPrompt\<close> before the age-band lines: everything up to the heading
  of step 3. The start age appears in it once, as the string the user typed.
\<close>

definition prompt_head :: "UserInput \<Rightarrow> jsstring" where
  "prompt_head input =
     tpl_0 @ genderStr input
     @ tpl_1 @ (if name input \<noteq> [] then name input else str_name_missing)
     @ tpl_2 @ birthYear input
     @ tpl_3 @ yearPillar input
     @ tpl_4 @ (if getStemPolarity (yearPillar input) = YANG then str_yang else str_yin)
     @ tpl_5 @ monthPillar input
     @ tpl_6 @ dayPillar input
     @ tpl_7 @ hourPillar input
     @ tpl_8 @ startAge input
     @ tpl_9 @ firstDaYun input
     @ tpl_10 @ daYunDirectionStr (yearPillar input) (gender input)
     @ tpl_11 @ firstDaYun input
     @ tpl_12 @ daYunDirectionStr (yearPillar input) (gender input)
     @ tpl_13 @ directionExample input
     @ tpl_14"

text \<open>
  The four age-band lines, from the first decade pillar and \<^verbatim>\<open>startAgeInt\<close>:
  \<^verbatim>\<open>
  - Age 1 .. ${startAgeInt - 1}: daYun = "childhood limit"
  - Age ${startAgeInt} .. ${startAgeInt + 9}: daYun = [step 1: ${input.firstDaYun}]
  - Age ${startAgeInt + 10} .. ${startAgeInt + 19}: daYun = [step 2]
  - Age ${startAgeInt + 20} .. ${startAgeInt + 29}: daYun = [step 3]
  \<close>
\<close>

definition age_band_lines :: "jsstring \<Rightarrow> int \<Rightarrow> jsstring" where
  "age_band_lines first n =
     tpl_age_1_to @ show_int (n - 1) @ tpl_childhood
     @ tpl_age @ show_int n @ tpl_to @ show_int (n + 9) @ tpl_step1 @ first @ tpl_step1_end
     @ tpl_age @ show_int (n + 10) @ tpl_to @ show_int (n + 19) @ tpl_step2
     @ tpl_age @ show_int (n + 20) @ tpl_to @ show_int (n + 29) @ tpl_step3"

definition userPrompt :: "UserInput \<Rightarrow> jsstring" where
  "userPrompt input =
     prompt_head input @ age_band_lines (firstDaYun input) (startAgeInt input) @ tpl_tail"

section \<open>JavaScript values and the validation of the response\<close>

text \<open>
  A value as \<^verbatim>\<open>JSON.parse\<close> builds it, with \<^verbatim>\<open>undefined\<close> for what a property
  read yields when the property is missing. A number is kept as a rational: the
  service only tests whether it is zero and passes it on. An object is the list of its
  own properties.
\<close>

datatype jsval =
    JSUndefined
  | JSNull
  | JSBoolean bool
  | JSNumber rat
  | JSString jsstring
  | JSArray "jsval list"
  | JSObject "(jsstring \<times> jsval) list"

text \<open>Truthiness: what \<^verbatim>\<open>!v\<close> and \<^verbatim>\<open>v || d\<close> test.\<close>

fun truthy :: "jsval \<Rightarrow> bool" where
  "truthy JSUndefined = False"
| "truthy JSNull = False"
| "truthy (JSBoolean b) = b"
| "truthy (JSNumber x) = (x \<noteq> 0)"
| "truthy (JSString s) = (s \<noteq> [])"
| "truthy (JSArray xs) = True"
| "truthy (JSObject kvs) = True"

text \<open>\<^verbatim>\<open>a || b\<close>\<close>

definition or_else :: "jsval \<Rightarrow> jsval \<Rightarrow> jsval" where
  "or_else a b = (if truthy a then a else b)"

text \<open>\<^verbatim>\<open>Array.isArray(v)\<close>\<close>

fun isArray :: "jsval \<Rightarrow> bool" where
  "isArray (JSArray xs) = True"
| "isArray v = False"

definition nullish :: "jsval \<Rightarrow> bool" where
  "nullish v \<longleftrightarrow> v = JSNull \<or> v = JSUndefined"

text \<open>
  The property read \<^verbatim>\<open>v.k\<close> on a value that is neither \<^verbatim>\<open>null\<close> nor
  \<^verbatim>\<open>undefined\<close>, for the keys the service reads (\<^verbatim>\<open>choices\<close>, \<^verbatim>\<open>message\<close>,
  \<^verbatim>\<open>content\<close>, \<^verbatim>\<open>chartPoints\<close> and the analysis fields): none of them is a
  property of a built-in prototype, so only an object's own property gives a value.
\<close>

fun getProp :: "jsval \<Rightarrow> jsstring \<Rightarrow> jsval" where
  "getProp (JSObject kvs) k = (case map_of kvs k of Some v \<Rightarrow> v | None \<Rightarrow> JSUndefined)"
| "getProp v k = JSUndefined"

text \<open>
  \<^verbatim>\<open>v[0]\<close> on a value that is neither \<^verbatim>\<open>null\<close> nor \<^verbatim>\<open>undefined\<close>: the first
  element of an array, the first code unit of a string, the property \<^verbatim>\<open>"0"\<close> of an
  object.
\<close>

fun index0 :: "jsval \<Rightarrow> jsval" where
  "index0 (JSArray xs) = (case xs of [] \<Rightarrow> JSUndefined | x # _ \<Rightarrow> x)"
| "index0 (JSString s) = (case s of [] \<Rightarrow> JSUndefined | c # _ \<Rightarrow> JSString [c])"
| "index0 (JSObject kvs) = getProp (JSObject kvs) (ascii ''0'')"
| "index0 v = JSUndefined"

text \<open>Optional chaining \<^verbatim>\<open>v?.f\<close>: \<^verbatim>\<open>undefined\<close> when \<open>v\<close> is nullish.\<close>

definition opt_chain :: "jsval \<Rightarrow> (jsval \<Rightarrow> jsval) \<Rightarrow> jsval" where
  "opt_chain v f = (if nullish v then JSUndefined else f v)"

text \<open>
  The \<^verbatim>\<open>analysis\<close> object of the result and the result itself. A field holds
  whatever value the payload carried when that value is truthy, of any type.
\<close>

record Analysis =
  bazi :: jsval
  summary :: jsval
  summaryScore :: jsval
  personality :: jsval
  personalityScore :: jsval
  industry :: jsval
  industryScore :: jsval
  fengShui :: jsval
  fengShuiScore :: jsval
  wealth :: jsval
  wealthScore :: jsval
  marriage :: jsval
  marriageScore :: jsval
  health :: jsval
  healthScore :: jsval
  family :: jsval
  familyScore :: jsval
  crypto :: jsval
  cryptoScore :: jsval
  cryptoYear :: jsval
  cryptoStyle :: jsval

record LifeDestinyResult =
  chartData :: jsval
  analysis :: Analysis

text \<open>
  The placeholder texts of the source: U+65E0 U+6458 U+8981 ("no summary"),
  U+65E0 U+6027 U+683C U+5206 U+6790 ("no personality analysis"), U+65E0 ("none"), the
  fifteen-character feng-shui advice, U+6682 U+65E0 U+4EA4 U+6613 U+5206 U+6790 ("no
  trading analysis yet"), U+5F85 U+5B9A ("to be determined") and
  U+73B0 U+8D27 U+5B9A U+6295 ("spot, regular purchases").
\<close>

definition str_no_summary :: jsstring where
  "str_no_summary =
     [0x65E0, 0x6458, 0x8981]"

definition str_no_personality :: jsstring where
  "str_no_personality =
     [0x65E0, 0x6027, 0x683C, 0x5206, 0x6790]"

definition str_none :: jsstring where
  "str_none =
     [0x65E0]"

definition str_fengShui_default :: jsstring where
  "str_fengShui_default =
     [0x5EFA, 0x8BAE, 0x591A, 0x4EB2, 0x8FD1, 0x81EA, 0x7136, 0xFF0C, 0x4FDD, 0x6301, 0x5FC3,
     0x5883, 0x5E73, 0x548C, 0x3002]"

definition str_crypto_default :: jsstring where
  "str_crypto_default =
     [0x6682, 0x65E0, 0x4EA4, 0x6613, 0x5206, 0x6790]"

definition str_cryptoYear_default :: jsstring where
  "str_cryptoYear_default =
     [0x5F85, 0x5B9A]"

definition str_cryptoStyle_default :: jsstring where
  "str_cryptoStyle_default =
     [0x73B0, 0x8D27, 0x5B9A, 0x6295]"

text \<open>
  Every error the service can end with. The first three are the configuration errors
  raised before the request; \<open>FetchRejected\<close> is a rejected \<^verbatim>\<open>fetch\<close>;
  \<open>RequestFailed\<close> carries the status and the body text of a response that is not
  ok; \<open>BodyNotJson\<close> and \<open>ContentNotJson\<close> are the exceptions of
  \<^verbatim>\<open>response.json()\<close> and \<^verbatim>\<open>JSON.parse(content)\<close>; \<open>EmptyContent\<close> is the error
  for a falsy message content; \<open>MissingChartPoints\<close> is the error thrown by the
  integrity check, whose message says that the data format is incorrect and
  \<^verbatim>\<open>chartPoints\<close> is missing; \<open>TypeError\<close> is the exception of a property read on
  \<^verbatim>\<open>null\<close>.
\<close>

datatype error =
    MissingApiKey
  | NonAsciiApiKey
  | MissingBaseUrl
  | FetchRejected
  | RequestFailed int jsstring
  | BodyNotJson
  | EmptyContent
  | ContentNotJson
  | MissingChartPoints
  | TypeError

text \<open>
  The validation of the parsed content (\<^verbatim>\<open>data\<close>), the last part of
  \<^verbatim>\<open>generateLifeAnalysis\<close>: the check \<^verbatim>\<open>!data.chartPoints || !Array.isArray(data.chartPoints)\<close>
  and the result with its defaults. The read of \<^verbatim>\<open>data.chartPoints\<close> throws when
  \<^verbatim>\<open>data\<close> is \<^verbatim>\<open>null\<close>.
\<close>

definition validate :: "jsval \<Rightarrow> error + LifeDestinyResult" where
  "validate data =
     (if nullish data then Inl TypeError
      else if \<not> truthy (getProp data (ascii ''chartPoints''))
              \<or> \<not> isArray (getProp data (ascii ''chartPoints''))
      then Inl MissingChartPoints
      else Inr \<lparr>
        chartData = getProp data (ascii ''chartPoints''),
        analysis = \<lparr>
          bazi = or_else (getProp data (ascii ''bazi'')) (JSArray []),
          summary = or_else (getProp data (ascii ''summary'')) (JSString str_no_summary),
          summaryScore = or_else (getProp data (ascii ''summaryScore'')) (JSNumber 5),
          personality = or_else (getProp data (ascii ''personality'')) (JSString str_no_personality),
          personalityScore = or_else (getProp data (ascii ''personalityScore'')) (JSNumber 5),
          industry = or_else (getProp data (ascii ''industry'')) (JSString str_none),
          industryScore = or_else (getProp data (ascii ''industryScore'')) (JSNumber 5),
          fengShui = or_else (getProp data (ascii ''fengShui'')) (JSString str_fengShui_default),
          fengShuiScore = or_else (getProp data (ascii ''fengShuiScore'')) (JSNumber 5),
          wealth = or_else (getProp data (ascii ''wealth'')) (JSString str_none),
          wealthScore = or_else (getProp data (ascii ''wealthScore'')) (JSNumber 5),
          marriage = or_else (getProp data (ascii ''marriage'')) (JSString str_none),
          marriageScore = or_else (getProp data (ascii ''marriageScore'')) (JSNumber 5),
          health = or_else (getProp data (ascii ''health'')) (JSString str_none),
          healthScore = or_else (getProp data (ascii ''healthScore'')) (JSNumber 5),
          family = or_else (getProp data (ascii ''family'')) (JSString str_none),
          familyScore = or_else (getProp data (ascii ''familyScore'')) (JSNumber 5),
          crypto = or_else (getProp data (ascii ''crypto'')) (JSString str_crypto_default),
          cryptoScore = or_else (getProp data (ascii ''cryptoScore'')) (JSNumber 5),
          cryptoYear = or_else (getProp data (ascii ''cryptoYear'')) (JSString str_cryptoYear_default),
          cryptoStyle = or_else (getProp data (ascii ''cryptoStyle'')) (JSString str_cryptoStyle_default)
        \<rparr>
      \<rparr>)"

section \<open>The service: \<^verbatim>\<open>generateLifeAnalysis\<close>\<close>

text \<open>
  What the outside world answers. A response has its \<^verbatim>\<open>ok\<close> flag, its status, its
  body as text and its body as parsed JSON (\<open>None\<close> when \<^verbatim>\<open>response.json()\<close>
  throws). The environment gives the response to a request (\<open>None\<close> when \<^verbatim>\<open>fetch\<close>
  rejects), the result of \<^verbatim>\<open>JSON.parse\<close> on the message content (\<open>None\<close> when it
  throws) and the constant \<^verbatim>\<open>BAZI_SYSTEM_INSTRUCTION\<close>.
\<close>

record Response =
  ok :: bool
  status :: int
  text_body :: jsstring
  json_body :: "jsval option"

record Env =
  fetch :: "Request \<Rightarrow> Response option"
  JSON_parse :: "jsval \<Rightarrow> jsval option"
  BAZI_SYSTEM_INSTRUCTION :: jsstring

text \<open>The argument of \<^verbatim>\<open>fetch\<close>.\<close>

definition buildRequest :: "Env \<Rightarrow> UserInput \<Rightarrow> Request" where
  "buildRequest env input = \<lparr>
     url = cleanBaseUrl input @ ascii ''/chat/completions'',
     authorization = ascii ''Bearer '' @ cleanApiKey input,
     model = targetModel input,
     system_content = BAZI_SYSTEM_INSTRUCTION env,
     user_content = userPrompt input \<rparr>"

text \<open>\<^verbatim>\<open>jsonResult.choices?.[0]?.message?.content\<close>\<close>

definition messageContent :: "jsval \<Rightarrow> error + jsval" where
  "messageContent jsonResult =
     (if nullish jsonResult then Inl TypeError
      else Inr (opt_chain
                 (opt_chain
                   (opt_chain (getProp jsonResult (ascii ''choices'')) index0)
                   (\<lambda>c. getProp c (ascii ''message'')))
                 (\<lambda>m. getProp m (ascii ''content''))))"

text \<open>The body of the \<^verbatim>\<open>try\<close> block after \<^verbatim>\<open>fetch\<close> has answered.\<close>

definition handleResponse :: "Env \<Rightarrow> Response option \<Rightarrow> error + LifeDestinyResult" where
  "handleResponse env response =
     (case response of
        None \<Rightarrow> Inl FetchRejected
      | Some r \<Rightarrow>
          if \<not> ok r then Inl (RequestFailed (status r) (text_body r))
          else (case json_body r of
                  None \<Rightarrow> Inl BodyNotJson
                | Some jsonResult \<Rightarrow>
                    (case messageContent jsonResult of
                       Inl e \<Rightarrow> Inl e
                     | Inr content \<Rightarrow>
                         if \<not> truthy content then Inl EmptyContent
                         else (case JSON_parse env content of
                                 None \<Rightarrow> Inl ContentNotJson
                               | Some data \<Rightarrow> validate data))))"

text \<open>
  \<^verbatim>\<open>generateLifeAnalysis\<close>. The result is the list of the requests sent over the
  network, in order, and the value or error the promise settles with. The three
  configuration checks come first, in the order of the source, and each of them throws
  before \<^verbatim>\<open>fetch\<close> is reached; the \<^verbatim>\<open>catch\<close> block logs the error and throws it
  again.
\<close>

definition generateLifeAnalysis ::
    "Env \<Rightarrow> UserInput \<Rightarrow> Request list \<times> (error + LifeDestinyResult)" where
  "generateLifeAnalysis env input =
     (if cleanApiKey input = [] then ([], Inl MissingApiKey)
      else if hasNonAscii (cleanApiKey input) then ([], Inl NonAsciiApiKey)
      else if cleanBaseUrl input = [] then ([], Inl MissingBaseUrl)
      else ([buildRequest env input],
            handleResponse env (fetch env (buildRequest env input))))"

section \<open>The form: \<^verbatim>\<open>handleSubmit\<close>\<close>

text \<open>
  The submit handler of the form, which stands in front of the service. It collects an
  error for each of the model name, the base address and the credential that is empty
  after trimming, in this order; with an error it shows the errors and returns, and
  otherwise it calls \<^verbatim>\<open>onSubmit(formData)\<close>. It calls \<^verbatim>\<open>trim\<close> on the three strings
  with no guard, which throws on \<^verbatim>\<open>undefined\<close>.
\<close>

datatype ConfigField = ModelNameField | ApiBaseUrlField | ApiKeyField

datatype SubmitResult = FormErrors "ConfigField list" | Submitted UserInput

definition handleSubmit :: "UserInput \<Rightarrow> error + SubmitResult" where
  "handleSubmit formData =
     (case (modelName formData, apiBaseUrl formData, apiKey formData) of
        (Some m, Some u, Some k) \<Rightarrow>
          (let errors = (if trim m = [] then [ModelNameField] else [])
                      @ (if trim u = [] then [ApiBaseUrlField] else [])
                      @ (if trim k = [] then [ApiKeyField] else [])
           in if errors \<noteq> [] then Inr (FormErrors errors) else Inr (Submitted formData))
      | _ \<Rightarrow> Inl TypeError)"

section \<open>Notions used in the statements\<close>

text \<open>
  A configuration string is blank when it is absent or when nothing is left of it after
  trimming.
\<close>

definition blank :: "jsstring option \<Rightarrow> bool" where
  "blank x = (case x of None \<Rightarrow> True | Some s \<Rightarrow> trim s = [])"

text \<open>
  The base address leaves nothing when it is absent or when, after trimming, it holds
  nothing but slashes: the service strips the slashes at its end.
\<close>

definition blank_url :: "jsstring option \<Rightarrow> bool" where
  "blank_url x = (case x of None \<Rightarrow> True | Some u \<Rightarrow> list_all (\<lambda>c. c = 0x2F) (trim u))"

text \<open>
  The line that follows the age-band lines in the template: a line break, the
  indentation and \<^verbatim>\<open>- ...\<close>U+4EE5 U+6B64 U+7C7B U+63A8 U+76F4 U+5230\<^verbatim>\<open> 100 \<close>U+5C81 U+3002
  ("and so on until age 100").
\<close>

definition tpl_and_so_on :: jsstring where
  "tpl_and_so_on =
     [0x000A] @ ascii ''       - ...'' @ [0x4EE5, 0x6B64, 0x7C7B, 0x63A8, 0x76F4, 0x5230] @
     ascii '' 100 '' @ [0x5C81, 0x3002]"

text \<open>
  The line of the \<open>k\<close>-th decade band for start age \<open>n\<close>, with the boundaries
  \<open>n + 10 * (k - 1)\<close> and \<open>n + 10 * (k - 1) + 9\<close> written as decimal integers, in the
  layout of the template; it is compared below with the lines that
  \<^verbatim>\<open>generateLifeAnalysis\<close> writes.
\<close>

definition decade_band_line :: "int \<Rightarrow> int \<Rightarrow> jsstring \<Rightarrow> jsstring" where
  "decade_band_line n k label =
     tpl_age @ show_int (n + 10 * (k - 1)) @ tpl_to @ show_int (n + 10 * (k - 1) + 9) @ label"

section \<open>Example inputs\<close>

text \<open>
  A male subject with the year pillar U+7532 U+5B50, the first decade pillar
  U+4E01 U+536F and the start age "3", with a complete configuration; and an
  environment whose server answers every request with a message whose content is the
  text \<^verbatim>\<open>{"chartPoints":[]}\<close>. \<open>example_parse\<close> is the part of \<^verbatim>\<open>JSON.parse\<close> that
  the examples need: that text parses to the object with an empty \<^verbatim>\<open>chartPoints\<close>
  array and nothing else, \<^verbatim>\<open>{}\<close> to the empty object and \<^verbatim>\<open>null\<close> to \<^verbatim>\<open>null\<close>; no
  other content occurs in the examples.
\<close>

definition example_input :: UserInput where
  "example_input = \<lparr>
     name = [], gender = MALE, birthYear = ascii ''1984'',
     yearPillar = [0x7532, 0x5B50], monthPillar = [0x4E19, 0x5BC5],
     dayPillar = [0x620A, 0x8FB0], hourPillar = [0x58EC, 0x620C],
     startAge = ascii ''3'', firstDaYun = [0x4E01, 0x536F],
     modelName = Some (ascii ''gpt-4o''),
     apiBaseUrl = Some (ascii ''https://api.example.com/v1/''),
     apiKey = Some (ascii ''sk-abc'') \<rparr>"

definition payload_only_chartPoints :: jsval where
  "payload_only_chartPoints = JSObject [(ascii ''chartPoints'', JSArray [])]"

definition content_only_chartPoints :: jsstring where
  "content_only_chartPoints = [0x7B, 0x22] @ ascii ''chartPoints'' @ [0x22, 0x3A, 0x5B, 0x5D, 0x7D]"

definition example_response :: "Request \<Rightarrow> Response option" where
  "example_response r = Some \<lparr>
     ok = True, status = 200, text_body = [],
     json_body = Some (JSObject [(ascii ''choices'',
       JSArray [JSObject [(ascii ''message'',
         JSObject [(ascii ''content'', JSString content_only_chartPoints)])]])]) \<rparr>"

definition example_parse :: "jsval \<Rightarrow> jsval option" where
  "example_parse content =
     (if content = JSString content_only_chartPoints then Some payload_only_chartPoints
      else if content = JSString [0x7B, 0x7D] then Some (JSObject [])
      else if content = JSString (ascii ''null'') then Some JSNull
      else None)"

definition example_env :: Env where
  "example_env = \<lparr> fetch = example_response, JSON_parse = example_parse,
     BAZI_SYSTEM_INSTRUCTION = [] \<rparr>"

text \<open>
  The example input with one configuration string changed: a model name of two
  spaces, a credential of one space, no base address, the credential "sk-abc" followed
  by an ideographic space (U+3000), the credential "sk-abc" between U+FEFF and a
  no-break space (U+00A0), a base address that is a slash between two spaces, and the
  credential "sk-" U+6D4B U+8BD5 "123" of the specification.
\<close>

definition input_blank_model :: UserInput where
  "input_blank_model = example_input\<lparr>modelName := Some (ascii ''  '')\<rparr>"

definition input_blank_key :: UserInput where
  "input_blank_key = example_input\<lparr>apiKey := Some (ascii '' '')\<rparr>"

definition input_blank_url :: UserInput where
  "input_blank_url = example_input\<lparr>apiBaseUrl := None\<rparr>"

definition key_wide_space :: jsstring where
  "key_wide_space = ascii ''sk-abc'' @ [0x3000]"

definition input_wide_space_key :: UserInput where
  "input_wide_space_key = example_input\<lparr>apiKey := Some key_wide_space\<rparr>"

definition key_nbsp_bom :: jsstring where
  "key_nbsp_bom = [0xFEFF] @ ascii ''sk-abc'' @ [0x00A0]"

definition input_nbsp_bom_key :: UserInput where
  "input_nbsp_bom_key = example_input\<lparr>apiKey := Some key_nbsp_bom\<rparr>"

definition input_slash_url :: UserInput where
  "input_slash_url = example_input\<lparr>apiBaseUrl := Some (ascii '' / '')\<rparr>"

definition key_cjk :: jsstring where
  "key_cjk = ascii ''sk-'' @ [0x6D4B, 0x8BD5] @ ascii ''123''"

definition input_cjk_key :: UserInput where
  "input_cjk_key = example_input\<lparr>apiKey := Some key_cjk\<rparr>"

text \<open>
  Three more payloads: one without \<^verbatim>\<open>chartPoints\<close>, one whose \<^verbatim>\<open>chartPoints\<close> is a
  string, and one with a one-element \<^verbatim>\<open>chartPoints\<close> array whose other fields are a
  zero score, an empty narrative, a \<^verbatim>\<open>null\<close>, a \<^verbatim>\<open>false\<close>, a string where a
  number is expected and a score of 8.
\<close>

definition payload_no_chartPoints :: jsval where
  "payload_no_chartPoints = JSObject [(ascii ''summary'', JSString (ascii ''fine''))]"

definition payload_chartPoints_string :: jsval where
  "payload_chartPoints_string = JSObject [(ascii ''chartPoints'', JSString (ascii ''[]''))]"

definition payload_falsy_fields :: jsval where
  "payload_falsy_fields = JSObject [
     (ascii ''chartPoints'', JSArray [JSNumber 1]),
     (ascii ''summaryScore'', JSNumber 0),
     (ascii ''summary'', JSString []),
     (ascii ''wealthScore'', JSNull),
     (ascii ''health'', JSBoolean False),
     (ascii ''familyScore'', JSString (ascii ''high'')),
     (ascii ''cryptoScore'', JSNumber 8)]"

section \<open>Properties of the direction resolver\<close>

lemma stems_disjoint: "set yangStems \<inter> set yinStems = {}"
  by (simp add: yangStems_def yinStems_def)

lemma firstChar_Nil [simp]: "firstChar [] = []"
  by (simp add: firstChar_def trim_def trimStart_def charAt_def)

lemma Nil_notin_stems [simp]: "[] \<notin> set yangStems" "[] \<notin> set yinStems"
  by (simp_all add: yangStems_def yinStems_def)

lemma polarity_yin_iff: "getStemPolarity p = YIN \<longleftrightarrow> firstChar p \<in> set yinStems"
  using stems_disjoint by (auto simp: getStemPolarity_def array_includes_def)

lemma polarity_yang_iff: "getStemPolarity p = YANG \<longleftrightarrow> firstChar p \<notin> set yinStems"
  using polarity_yin_iff [of p] by (cases "getStemPolarity p") auto

lemma str_forward_neq_backward: "str_forward \<noteq> str_backward"
  by (simp add: str_forward_def str_backward_def)

lemma trimStart_ws_prefix:
  "list_all isWhiteSpace l \<Longrightarrow> trimStart (l @ s) = trimStart s"
  by (simp add: trimStart_def dropWhile_append2 list_all_iff)

lemma trimStart_ws_suffix:
  assumes "list_all isWhiteSpace r"
  shows "trimStart (rev (trimStart (s @ r))) = trimStart (rev (trimStart s))"
proof (cases "list_all isWhiteSpace s")
  case True
  with assms have "trimStart (s @ r) = []" "trimStart s = []"
    by (simp_all add: trimStart_def list_all_iff)
  then show ?thesis by simp
next
  case False
  then obtain x where "x \<in> set s" "\<not> isWhiteSpace x"
    by (auto simp: list_all_iff)
  then have "trimStart (s @ r) = trimStart s @ r"
    by (simp add: trimStart_def dropWhile_append1)
  moreover from assms have "list_all isWhiteSpace (rev r)"
    by (simp add: list_all_iff)
  ultimately show ?thesis
    by (simp add: trimStart_ws_prefix)
qed

lemma trim_surrounding_ws:
  "list_all isWhiteSpace l \<Longrightarrow> list_all isWhiteSpace r \<Longrightarrow> trim (l @ s @ r) = trim s"
  by (simp add: trim_def trimStart_ws_prefix trimStart_ws_suffix)

lemma polarity_depends_on_firstChar:
  "firstChar p = firstChar q \<Longrightarrow> getStemPolarity p = getStemPolarity q"
  using polarity_yin_iff [of p] polarity_yin_iff [of q]
  by (cases "getStemPolarity p"; cases "getStemPolarity q") auto

lemma trim_decomposition:
  "\<exists>l r. list_all isWhiteSpace l \<and> list_all isWhiteSpace r \<and> s = l @ trim s @ r"
proof -
  define l where "l = takeWhile isWhiteSpace s"
  define r where "r = rev (takeWhile isWhiteSpace (rev (trimStart s)))"
  have "rev (trimStart s) = rev r @ rev (trim s)"
    by (simp add: r_def trim_def trimStart_def)
  then have "trimStart s = trim s @ r"
    by (metis rev_append rev_rev_ident)
  moreover have "s = l @ trimStart s"
    by (simp add: l_def trimStart_def)
  moreover have "list_all isWhiteSpace l" "list_all isWhiteSpace r"
    by (auto simp: l_def r_def list_all_iff dest: set_takeWhileD)
  ultimately show ?thesis by metis
qed

lemma trim_idem: "trim (trim s) = trim s"
proof -
  obtain l r where "list_all isWhiteSpace l" "list_all isWhiteSpace r" "s = l @ trim s @ r"
    using trim_decomposition by blast
  then show ?thesis
    by (metis trim_surrounding_ws)
qed

text \<open>
  Claim C1. For every pillar string and gender the direction is forward exactly when
  the gender is male and the stem polarity is Yang, or the gender is female and the
  stem polarity is Yin, and backward otherwise; the direction text of the request says
  the same. The polarity is the result of the lookup in the two five-member tables:
  Yin exactly when the first character of the trimmed pillar is one of the five Yin
  stems, and Yang for each of the five Yang stems.
\<close>

theorem direction_forward_iff:
  "(isForward p g \<longleftrightarrow>
      (g = MALE \<and> getStemPolarity p = YANG) \<or> (g = FEMALE \<and> getStemPolarity p = YIN))
   \<and> (daYunDirectionStr p g = str_forward \<longleftrightarrow> isForward p g)
   \<and> (daYunDirectionStr p g = str_backward \<longleftrightarrow> \<not> isForward p g)
   \<and> length yangStems = 5 \<and> length yinStems = 5
   \<and> (getStemPolarity p = YIN \<longleftrightarrow> firstChar p \<in> set yinStems)
   \<and> (firstChar p \<in> set yangStems \<longrightarrow> getStemPolarity p = YANG)"
proof -
  have "isForward p g \<longleftrightarrow>
      (g = MALE \<and> getStemPolarity p = YANG) \<or> (g = FEMALE \<and> getStemPolarity p = YIN)"
    by (cases g) (simp_all add: isForward_def)
  moreover have "daYunDirectionStr p g = str_forward \<longleftrightarrow> isForward p g"
    using str_forward_neq_backward by (auto simp: daYunDirectionStr_def)
  moreover have "daYunDirectionStr p g = str_backward \<longleftrightarrow> \<not> isForward p g"
    using str_forward_neq_backward by (auto simp: daYunDirectionStr_def)
  moreover have "length yangStems = 5 \<and> length yinStems = 5"
    by (simp add: yangStems_def yinStems_def)
  moreover have "firstChar p \<in> set yangStems \<longrightarrow> getStemPolarity p = YANG"
    using stems_disjoint by (auto simp: polarity_yang_iff)
  ultimately show ?thesis
    using polarity_yin_iff [of p] by blast
qed

text \<open>
  The year pillars U+7532 U+5B50 (jia-zi, a Yang stem) and U+4E59 U+4E11 (yi-chou, a
  Yin stem) of the specification's examples: forward for a male and backward for a
  female on the first, the reverse on the second.
\<close>

theorem direction_forward_iff_witness:
  "firstChar [0x7532, 0x5B50] \<in> set yangStems
   \<and> isForward [0x7532, 0x5B50] MALE \<and> \<not> isForward [0x7532, 0x5B50] FEMALE
   \<and> \<not> isForward [0x4E59, 0x4E11] MALE \<and> isForward [0x4E59, 0x4E11] FEMALE"
proof -
  have y: "firstChar [0x7532, 0x5B50] \<in> set yangStems"
    by (simp add: firstChar_def trim_def trimStart_def isWhiteSpace_def charAt_def yangStems_def)
  have n: "firstChar [0x4E59, 0x4E11] \<in> set yinStems"
    by (simp add: firstChar_def trim_def trimStart_def isWhiteSpace_def charAt_def yinStems_def)
  show ?thesis
    using y n
      direction_forward_iff [of "[0x7532, 0x5B50]" MALE]
      direction_forward_iff [of "[0x7532, 0x5B50]" FEMALE]
      direction_forward_iff [of "[0x4E59, 0x4E11]" MALE]
      direction_forward_iff [of "[0x4E59, 0x4E11]" FEMALE]
    by simp
qed

lemma firstChar_no_leading_ws:
  assumes "p \<noteq> []" and "\<not> isWhiteSpace (hd p)"
  shows "firstChar p = [hd p]"
proof -
  obtain l r where lr: "list_all isWhiteSpace l" "list_all isWhiteSpace r" "p = l @ trim p @ r"
    using trim_decomposition by blast
  have "l = []"
  proof (rule ccontr)
    assume "l \<noteq> []"
    with lr(3) have "hd p = hd l" by (metis hd_append2)
    with \<open>l \<noteq> []\<close> lr(1) assms(2) show False
      by (auto simp: list_all_iff)
  qed
  with lr(3) have p: "p = trim p @ r" by simp
  have t: "trim p \<noteq> []"
  proof
    assume "trim p = []"
    with p have "p = r" by simp
    with assms lr(2) show False
      by (auto simp: list_all_iff)
  qed
  with p have "hd (trim p) = hd p" by (metis hd_append2)
  with t show ?thesis
    by (simp add: firstChar_def charAt_def hd_conv_nth)
qed

text \<open>
  Claim C6. A pillar that is empty, or whose first character is in neither five-member
  table, has polarity Yang: the resolver returns a polarity on every string and has no
  failing branch. So the direction is forward exactly for a male, and the empty pillar
  resolves, for every gender, to the same direction as any pillar with a Yang stem. The
  first character is the one the resolver extracts, \<^verbatim>\<open>pillar.trim().charAt(0)\<close>; it
  is the first code unit of the pillar itself whenever the pillar does not begin with
  whitespace.
\<close>

theorem unknown_stem_defaults_to_yang:
  "(p = [] \<or> (firstChar p \<notin> set yangStems \<and> firstChar p \<notin> set yinStems) \<longrightarrow>
      getStemPolarity p = YANG \<and> (isForward p g \<longleftrightarrow> g = MALE))
   \<and> (firstChar q \<in> set yangStems \<longrightarrow>
        isForward [] g = isForward q g \<and> daYunDirectionStr [] g = daYunDirectionStr q g)
   \<and> (p \<noteq> [] \<and> \<not> isWhiteSpace (hd p) \<longrightarrow> firstChar p = [hd p])"
proof -
  have a: "getStemPolarity p = YANG \<and> (isForward p g \<longleftrightarrow> g = MALE)"
    if "p = [] \<or> (firstChar p \<notin> set yangStems \<and> firstChar p \<notin> set yinStems)"
    using that by (cases g) (auto simp: isForward_def polarity_yang_iff polarity_yin_iff)
  have b: "isForward [] g = isForward q g \<and> daYunDirectionStr [] g = daYunDirectionStr q g"
    if "firstChar q \<in> set yangStems"
  proof -
    from that stems_disjoint have "getStemPolarity q = YANG"
      by (auto simp: polarity_yang_iff)
    moreover have "getStemPolarity [] = YANG"
      by (simp add: getStemPolarity_def)
    ultimately show ?thesis
      by (simp add: isForward_def daYunDirectionStr_def)
  qed
  from a b firstChar_no_leading_ws [of p] show ?thesis by blast
qed

text \<open>
  The pillar "X?" (a first character outside both tables) resolves as Yang, and the
  empty pillar resolves like U+7532 U+5B50 for a female.
\<close>

theorem unknown_stem_defaults_to_yang_witness:
  "firstChar (ascii ''X?'') \<notin> set yangStems \<and> firstChar (ascii ''X?'') \<notin> set yinStems
   \<and> getStemPolarity (ascii ''X?'') = YANG
   \<and> firstChar [0x7532, 0x5B50] \<in> set yangStems
   \<and> isForward [] FEMALE = isForward [0x7532, 0x5B50] FEMALE"
proof -
  have x: "firstChar (ascii ''X?'') \<notin> set yangStems \<and> firstChar (ascii ''X?'') \<notin> set yinStems"
    by (simp add: firstChar_def trim_def trimStart_def isWhiteSpace_def charAt_def
        yangStems_def yinStems_def ascii_def)
  have y: "firstChar [0x7532, 0x5B50] \<in> set yangStems"
    by (simp add: firstChar_def trim_def trimStart_def isWhiteSpace_def charAt_def yangStems_def)
  show ?thesis
    using x y unknown_stem_defaults_to_yang [of "ascii ''X?''" FEMALE "[0x7532, 0x5B50]"]
    by simp
qed

text \<open>
  Claim C7. The resolved direction does not change when whitespace is added in front
  of or behind the pillar (so neither when it is removed): the pillar is trimmed
  before its first character is taken, and the resolver gives the trimmed pillar the
  same polarity and direction as the pillar itself.
\<close>

theorem direction_ignores_surrounding_whitespace:
  assumes "list_all isWhiteSpace l" and "list_all isWhiteSpace r"
  shows "firstChar (l @ s @ r) = firstChar s
       \<and> getStemPolarity (l @ s @ r) = getStemPolarity s
       \<and> isForward (l @ s @ r) g = isForward s g
       \<and> daYunDirectionStr (l @ s @ r) g = daYunDirectionStr s g
       \<and> getStemPolarity (trim s) = getStemPolarity s
       \<and> isForward (trim s) g = isForward s g"
proof -
  have f: "firstChar (l @ s @ r) = firstChar s"
    using assms by (simp add: firstChar_def trim_surrounding_ws)
  then have p: "getStemPolarity (l @ s @ r) = getStemPolarity s"
    by (rule polarity_depends_on_firstChar)
  have t: "firstChar (trim s) = firstChar s"
    by (simp add: firstChar_def trim_idem)
  then have q: "getStemPolarity (trim s) = getStemPolarity s"
    by (rule polarity_depends_on_firstChar)
  show ?thesis
    using f p q by (simp add: isForward_def daYunDirectionStr_def)
qed

text \<open>
  The pillar U+4E59 U+4E11 between a leading space with a tab and a trailing
  ideographic space with a line feed is still backward for a male.
\<close>

theorem direction_ignores_surrounding_whitespace_witness:
  "list_all isWhiteSpace [0x20, 0x09] \<and> list_all isWhiteSpace [0x3000, 0x0A]
   \<and> isForward ([0x20, 0x09] @ [0x4E59, 0x4E11] @ [0x3000, 0x0A]) MALE
       = isForward [0x4E59, 0x4E11] MALE
   \<and> \<not> isForward [0x20, 0x09, 0x4E59, 0x4E11, 0x3000, 0x0A] MALE"
proof -
  have l: "list_all isWhiteSpace [0x20, 0x09]" and r: "list_all isWhiteSpace [0x3000, 0x0A]"
    by (simp_all add: isWhiteSpace_def)
  have n: "\<not> isForward [0x4E59, 0x4E11] MALE"
    by (simp add: isForward_def getStemPolarity_def array_includes_def firstChar_def trim_def
        trimStart_def isWhiteSpace_def charAt_def yangStems_def yinStems_def)
  show ?thesis
    using l r n direction_ignores_surrounding_whitespace [OF l r, of "[0x4E59, 0x4E11]" MALE]
    by simp
qed

section \<open>Properties of the validation\<close>

lemmas eval_strings = ascii_def trim_def trimStart_def isWhiteSpace_def

lemma isArray_truthy: "isArray v \<Longrightarrow> truthy v"
  by (cases v) simp_all

lemma isArray_not_nullish: "isArray (getProp data k) \<Longrightarrow> \<not> nullish data"
  by (cases data) (simp_all add: nullish_def)

lemma validate_fails_iff:
  "isl (validate data) \<longleftrightarrow> \<not> isArray (getProp data (ascii ''chartPoints''))"
  using isArray_truthy [of "getProp data (ascii ''chartPoints'')"]
    isArray_not_nullish [of data "ascii ''chartPoints''"]
  by (auto simp: validate_def)

lemma validate_error:
  "validate data = Inl e \<Longrightarrow> e = (if nullish data then TypeError else MissingChartPoints)"
  by (auto simp: validate_def split: if_splits)

lemma validate_Inr:
  assumes "isArray (getProp data (ascii ''chartPoints''))"
  shows "validate data = Inr \<lparr>
        chartData = getProp data (ascii ''chartPoints''),
        analysis = \<lparr>
          bazi = or_else (getProp data (ascii ''bazi'')) (JSArray []),
          summary = or_else (getProp data (ascii ''summary'')) (JSString str_no_summary),
          summaryScore = or_else (getProp data (ascii ''summaryScore'')) (JSNumber 5),
          personality = or_else (getProp data (ascii ''personality'')) (JSString str_no_personality),
          personalityScore = or_else (getProp data (ascii ''personalityScore'')) (JSNumber 5),
          industry = or_else (getProp data (ascii ''industry'')) (JSString str_none),
          industryScore = or_else (getProp data (ascii ''industryScore'')) (JSNumber 5),
          fengShui = or_else (getProp data (ascii ''fengShui'')) (JSString str_fengShui_default),
          fengShuiScore = or_else (getProp data (ascii ''fengShuiScore'')) (JSNumber 5),
          wealth = or_else (getProp data (ascii ''wealth'')) (JSString str_none),
          wealthScore = or_else (getProp data (ascii ''wealthScore'')) (JSNumber 5),
          marriage = or_else (getProp data (ascii ''marriage'')) (JSString str_none),
          marriageScore = or_else (getProp data (ascii ''marriageScore'')) (JSNumber 5),
          health = or_else (getProp data (ascii ''health'')) (JSString str_none),
          healthScore = or_else (getProp data (ascii ''healthScore'')) (JSNumber 5),
          family = or_else (getProp data (ascii ''family'')) (JSString str_none),
          familyScore = or_else (getProp data (ascii ''familyScore'')) (JSNumber 5),
          crypto = or_else (getProp data (ascii ''crypto'')) (JSString str_crypto_default),
          cryptoScore = or_else (getProp data (ascii ''cryptoScore'')) (JSNumber 5),
          cryptoYear = or_else (getProp data (ascii ''cryptoYear'')) (JSString str_cryptoYear_default),
          cryptoStyle = or_else (getProp data (ascii ''cryptoStyle'')) (JSString str_cryptoStyle_default)
        \<rparr>
      \<rparr>"
  using assms isArray_truthy [OF assms] isArray_not_nullish [OF assms]
  unfolding validate_def by simp

lemma validate_chartData:
  assumes "getProp data (ascii ''chartPoints'') = JSArray xs"
  shows "\<exists>r. validate data = Inr r \<and> chartData r = JSArray xs"
proof -
  have "isArray (getProp data (ascii ''chartPoints''))"
    using assms by simp
  from validate_Inr [OF this] have "chartData (projr (validate data)) = JSArray xs"
    "validate data = Inr (projr (validate data))"
    by (simp_all add: assms)
  then show ?thesis by blast
qed

lemma validate_fields:
  assumes "validate data = Inr r"
  shows
    "bazi (analysis r) = or_else (getProp data (ascii ''bazi'')) (JSArray [])"
    "summary (analysis r) = or_else (getProp data (ascii ''summary'')) (JSString str_no_summary)"
    "summaryScore (analysis r) = or_else (getProp data (ascii ''summaryScore'')) (JSNumber 5)"
    "personality (analysis r) = or_else (getProp data (ascii ''personality'')) (JSString str_no_personality)"
    "personalityScore (analysis r) = or_else (getProp data (ascii ''personalityScore'')) (JSNumber 5)"
    "industry (analysis r) = or_else (getProp data (ascii ''industry'')) (JSString str_none)"
    "industryScore (analysis r) = or_else (getProp data (ascii ''industryScore'')) (JSNumber 5)"
    "fengShui (analysis r) = or_else (getProp data (ascii ''fengShui'')) (JSString str_fengShui_default)"
    "fengShuiScore (analysis r) = or_else (getProp data (ascii ''fengShuiScore'')) (JSNumber 5)"
    "wealth (analysis r) = or_else (getProp data (ascii ''wealth'')) (JSString str_none)"
    "wealthScore (analysis r) = or_else (getProp data (ascii ''wealthScore'')) (JSNumber 5)"
    "marriage (analysis r) = or_else (getProp data (ascii ''marriage'')) (JSString str_none)"
    "marriageScore (analysis r) = or_else (getProp data (ascii ''marriageScore'')) (JSNumber 5)"
    "health (analysis r) = or_else (getProp data (ascii ''health'')) (JSString str_none)"
    "healthScore (analysis r) = or_else (getProp data (ascii ''healthScore'')) (JSNumber 5)"
    "family (analysis r) = or_else (getProp data (ascii ''family'')) (JSString str_none)"
    "familyScore (analysis r) = or_else (getProp data (ascii ''familyScore'')) (JSNumber 5)"
    "crypto (analysis r) = or_else (getProp data (ascii ''crypto'')) (JSString str_crypto_default)"
    "cryptoScore (analysis r) = or_else (getProp data (ascii ''cryptoScore'')) (JSNumber 5)"
    "cryptoYear (analysis r) = or_else (getProp data (ascii ''cryptoYear'')) (JSString str_cryptoYear_default)"
    "cryptoStyle (analysis r) = or_else (getProp data (ascii ''cryptoStyle'')) (JSString str_cryptoStyle_default)"
proof -
  from assms have "\<not> isl (validate data)" by simp
  then have "isArray (getProp data (ascii ''chartPoints''))"
    by (simp add: validate_fails_iff)
  from validate_Inr [OF this] assms have r: "r = \<lparr>
        chartData = getProp data (ascii ''chartPoints''),
        analysis = \<lparr>
          bazi = or_else (getProp data (ascii ''bazi'')) (JSArray []),
          summary = or_else (getProp data (ascii ''summary'')) (JSString str_no_summary),
          summaryScore = or_else (getProp data (ascii ''summaryScore'')) (JSNumber 5),
          personality = or_else (getProp data (ascii ''personality'')) (JSString str_no_personality),
          personalityScore = or_else (getProp data (ascii ''personalityScore'')) (JSNumber 5),
          industry = or_else (getProp data (ascii ''industry'')) (JSString str_none),
          industryScore = or_else (getProp data (ascii ''industryScore'')) (JSNumber 5),
          fengShui = or_else (getProp data (ascii ''fengShui'')) (JSString str_fengShui_default),
          fengShuiScore = or_else (getProp data (ascii ''fengShuiScore'')) (JSNumber 5),
          wealth = or_else (getProp data (ascii ''wealth'')) (JSString str_none),
          wealthScore = or_else (getProp data (ascii ''wealthScore'')) (JSNumber 5),
          marriage = or_else (getProp data (ascii ''marriage'')) (JSString str_none),
          marriageScore = or_else (getProp data (ascii ''marriageScore'')) (JSNumber 5),
          health = or_else (getProp data (ascii ''health'')) (JSString str_none),
          healthScore = or_else (getProp data (ascii ''healthScore'')) (JSNumber 5),
          family = or_else (getProp data (ascii ''family'')) (JSString str_none),
          familyScore = or_else (getProp data (ascii ''familyScore'')) (JSNumber 5),
          crypto = or_else (getProp data (ascii ''crypto'')) (JSString str_crypto_default),
          cryptoScore = or_else (getProp data (ascii ''cryptoScore'')) (JSNumber 5),
          cryptoYear = or_else (getProp data (ascii ''cryptoYear'')) (JSString str_cryptoYear_default),
          cryptoStyle = or_else (getProp data (ascii ''cryptoStyle'')) (JSString str_cryptoStyle_default)
        \<rparr>
      \<rparr>"
    by simp
  show
    "bazi (analysis r) = or_else (getProp data (ascii ''bazi'')) (JSArray [])"
    "summary (analysis r) = or_else (getProp data (ascii ''summary'')) (JSString str_no_summary)"
    "summaryScore (analysis r) = or_else (getProp data (ascii ''summaryScore'')) (JSNumber 5)"
    "personality (analysis r) = or_else (getProp data (ascii ''personality'')) (JSString str_no_personality)"
    "personalityScore (analysis r) = or_else (getProp data (ascii ''personalityScore'')) (JSNumber 5)"
    "industry (analysis r) = or_else (getProp data (ascii ''industry'')) (JSString str_none)"
    "industryScore (analysis r) = or_else (getProp data (ascii ''industryScore'')) (JSNumber 5)"
    "fengShui (analysis r) = or_else (getProp data (ascii ''fengShui'')) (JSString str_fengShui_default)"
    "fengShuiScore (analysis r) = or_else (getProp data (ascii ''fengShuiScore'')) (JSNumber 5)"
    "wealth (analysis r) = or_else (getProp data (ascii ''wealth'')) (JSString str_none)"
    "wealthScore (analysis r) = or_else (getProp data (ascii ''wealthScore'')) (JSNumber 5)"
    "marriage (analysis r) = or_else (getProp data (ascii ''marriage'')) (JSString str_none)"
    "marriageScore (analysis r) = or_else (getProp data (ascii ''marriageScore'')) (JSNumber 5)"
    "health (analysis r) = or_else (getProp data (ascii ''health'')) (JSString str_none)"
    "healthScore (analysis r) = or_else (getProp data (ascii ''healthScore'')) (JSNumber 5)"
    "family (analysis r) = or_else (getProp data (ascii ''family'')) (JSString str_none)"
    "familyScore (analysis r) = or_else (getProp data (ascii ''familyScore'')) (JSNumber 5)"
    "crypto (analysis r) = or_else (getProp data (ascii ''crypto'')) (JSString str_crypto_default)"
    "cryptoScore (analysis r) = or_else (getProp data (ascii ''cryptoScore'')) (JSNumber 5)"
    "cryptoYear (analysis r) = or_else (getProp data (ascii ''cryptoYear'')) (JSString str_cryptoYear_default)"
    "cryptoStyle (analysis r) = or_else (getProp data (ascii ''cryptoStyle'')) (JSString str_cryptoStyle_default)"
    unfolding r by simp_all
qed

text \<open>
  Claim C3. The validation fails exactly when the payload has no \<^verbatim>\<open>chartPoints\<close>
  that is an array: when the property is absent (the read gives \<^verbatim>\<open>undefined\<close>),
  or present and not an array. The failure is the error of the integrity check, except
  on the payload \<^verbatim>\<open>null\<close>, where already the read of \<^verbatim>\<open>chartPoints\<close> throws. When
  \<^verbatim>\<open>chartPoints\<close> is an array the validation returns a result that carries it,
  whatever the other fields are.
\<close>

theorem only_chartPoints_can_fail:
  "(isl (validate data) \<longleftrightarrow> \<not> isArray (getProp data (ascii ''chartPoints'')))
   \<and> (validate data = Inl e \<longrightarrow> e = (if nullish data then TypeError else MissingChartPoints))
   \<and> (getProp data (ascii ''chartPoints'') = JSArray xs \<longrightarrow>
        (\<exists>r. validate data = Inr r \<and> chartData r = JSArray xs))"
  using validate_fails_iff [of data] validate_error [of data e] validate_chartData [of data xs]
  by blast

text \<open>
  A payload without \<^verbatim>\<open>chartPoints\<close> and one whose \<^verbatim>\<open>chartPoints\<close> is a string fail
  with the error of the integrity check, \<^verbatim>\<open>null\<close> fails with the type error, and the
  payload with a one-element array and malformed other fields is accepted.
\<close>

theorem only_chartPoints_can_fail_witness:
  "validate payload_no_chartPoints = Inl MissingChartPoints
   \<and> validate payload_chartPoints_string = Inl MissingChartPoints
   \<and> validate JSNull = Inl TypeError
   \<and> getProp payload_falsy_fields (ascii ''chartPoints'') = JSArray [JSNumber 1]
   \<and> \<not> isl (validate payload_falsy_fields)
   \<and> chartData (projr (validate payload_falsy_fields)) = JSArray [JSNumber 1]"
proof -
  have a: "validate payload_no_chartPoints = Inl MissingChartPoints"
    and b: "validate payload_chartPoints_string = Inl MissingChartPoints"
    and c: "validate JSNull = Inl TypeError"
    by (simp_all add: validate_def nullish_def payload_no_chartPoints_def
        payload_chartPoints_string_def ascii_def)
  have d: "getProp payload_falsy_fields (ascii ''chartPoints'') = JSArray [JSNumber 1]"
    by (simp add: payload_falsy_fields_def ascii_def)
  show ?thesis
    using a b c d
      only_chartPoints_can_fail [of payload_no_chartPoints MissingChartPoints "[]"]
      only_chartPoints_can_fail [of payload_falsy_fields TypeError "[JSNumber 1]"]
    by auto
qed

text \<open>
  Claim C4. A payload whose \<^verbatim>\<open>chartPoints\<close> is the empty array and that has no other
  field validates to the result with the empty chart, an empty \<^verbatim>\<open>bazi\<close> list, the
  score 5 in each of the nine score fields and the placeholder text of the source in
  each of the eleven text fields.
\<close>

theorem empty_payload_gets_defaults:
  assumes "getProp data (ascii ''chartPoints'') = JSArray []"
    and "\<forall>k. k \<noteq> ascii ''chartPoints'' \<longrightarrow> getProp data k = JSUndefined"
  shows "validate data = Inr \<lparr>
        chartData = JSArray [],
        analysis = \<lparr>
          bazi = JSArray [],
          summary = JSString str_no_summary,
          summaryScore = JSNumber 5,
          personality = JSString str_no_personality,
          personalityScore = JSNumber 5,
          industry = JSString str_none,
          industryScore = JSNumber 5,
          fengShui = JSString str_fengShui_default,
          fengShuiScore = JSNumber 5,
          wealth = JSString str_none,
          wealthScore = JSNumber 5,
          marriage = JSString str_none,
          marriageScore = JSNumber 5,
          health = JSString str_none,
          healthScore = JSNumber 5,
          family = JSString str_none,
          familyScore = JSNumber 5,
          crypto = JSString str_crypto_default,
          cryptoScore = JSNumber 5,
          cryptoYear = JSString str_cryptoYear_default,
          cryptoStyle = JSString str_cryptoStyle_default
        \<rparr>
      \<rparr>"
proof -
  have u:
    "getProp data (ascii ''bazi'') = JSUndefined"
    "getProp data (ascii ''summary'') = JSUndefined"
    "getProp data (ascii ''summaryScore'') = JSUndefined"
    "getProp data (ascii ''personality'') = JSUndefined"
    "getProp data (ascii ''personalityScore'') = JSUndefined"
    "getProp data (ascii ''industry'') = JSUndefined"
    "getProp data (ascii ''industryScore'') = JSUndefined"
    "getProp data (ascii ''fengShui'') = JSUndefined"
    "getProp data (ascii ''fengShuiScore'') = JSUndefined"
    "getProp data (ascii ''wealth'') = JSUndefined"
    "getProp data (ascii ''wealthScore'') = JSUndefined"
    "getProp data (ascii ''marriage'') = JSUndefined"
    "getProp data (ascii ''marriageScore'') = JSUndefined"
    "getProp data (ascii ''health'') = JSUndefined"
    "getProp data (ascii ''healthScore'') = JSUndefined"
    "getProp data (ascii ''family'') = JSUndefined"
    "getProp data (ascii ''familyScore'') = JSUndefined"
    "getProp data (ascii ''crypto'') = JSUndefined"
    "getProp data (ascii ''cryptoScore'') = JSUndefined"
    "getProp data (ascii ''cryptoYear'') = JSUndefined"
    "getProp data (ascii ''cryptoStyle'') = JSUndefined"
    using assms(2) by (simp_all add: ascii_def)
  have "isArray (getProp data (ascii ''chartPoints''))"
    using assms(1) by simp
  from validate_Inr [OF this] show ?thesis
    unfolding u assms(1) or_else_def by simp
qed

text \<open>The payload \<^verbatim>\<open>{"chartPoints": []}\<close> itself.\<close>

theorem empty_payload_gets_defaults_witness:
  "getProp payload_only_chartPoints (ascii ''chartPoints'') = JSArray []
   \<and> getProp payload_only_chartPoints (ascii ''summary'') = JSUndefined
   \<and> validate payload_only_chartPoints = Inr \<lparr>
        chartData = JSArray [],
        analysis = \<lparr>
          bazi = JSArray [],
          summary = JSString str_no_summary,
          summaryScore = JSNumber 5,
          personality = JSString str_no_personality,
          personalityScore = JSNumber 5,
          industry = JSString str_none,
          industryScore = JSNumber 5,
          fengShui = JSString str_fengShui_default,
          fengShuiScore = JSNumber 5,
          wealth = JSString str_none,
          wealthScore = JSNumber 5,
          marriage = JSString str_none,
          marriageScore = JSNumber 5,
          health = JSString str_none,
          healthScore = JSNumber 5,
          family = JSString str_none,
          familyScore = JSNumber 5,
          crypto = JSString str_crypto_default,
          cryptoScore = JSNumber 5,
          cryptoYear = JSString str_cryptoYear_default,
          cryptoStyle = JSString str_cryptoStyle_default
        \<rparr>
      \<rparr>"
proof -
  have a: "getProp payload_only_chartPoints (ascii ''chartPoints'') = JSArray []"
    by (simp add: payload_only_chartPoints_def)
  have b: "\<forall>k. k \<noteq> ascii ''chartPoints'' \<longrightarrow> getProp payload_only_chartPoints k = JSUndefined"
    by (simp add: payload_only_chartPoints_def)
  have c: "getProp payload_only_chartPoints (ascii ''summary'') = JSUndefined"
    by (simp add: payload_only_chartPoints_def ascii_def)
  show ?thesis
    using a c empty_payload_gets_defaults [OF a b] by simp
qed

text \<open>
  Claim C9. In an accepted payload a field that is present with a falsy value (the
  number 0, the empty string, \<^verbatim>\<open>null\<close>, \<^verbatim>\<open>false\<close>) is treated like an absent one:
  each score field then holds 5, each text field its placeholder and \<^verbatim>\<open>bazi\<close> the
  empty list, so the falsy value is not preserved.
\<close>

theorem falsy_fields_get_defaults:
  assumes "validate data = Inr r"
  shows "\<not> truthy (JSNumber 0) \<and> \<not> truthy (JSString []) \<and> \<not> truthy JSNull
      \<and> \<not> truthy (JSBoolean False) \<and> \<not> truthy JSUndefined
      \<and> (\<not> truthy (getProp data (ascii ''summaryScore'')) \<longrightarrow> summaryScore (analysis r) = JSNumber 5)
      \<and> (\<not> truthy (getProp data (ascii ''personalityScore'')) \<longrightarrow> personalityScore (analysis r) = JSNumber 5)
      \<and> (\<not> truthy (getProp data (ascii ''industryScore'')) \<longrightarrow> industryScore (analysis r) = JSNumber 5)
      \<and> (\<not> truthy (getProp data (ascii ''fengShuiScore'')) \<longrightarrow> fengShuiScore (analysis r) = JSNumber 5)
      \<and> (\<not> truthy (getProp data (ascii ''wealthScore'')) \<longrightarrow> wealthScore (analysis r) = JSNumber 5)
      \<and> (\<not> truthy (getProp data (ascii ''marriageScore'')) \<longrightarrow> marriageScore (analysis r) = JSNumber 5)
      \<and> (\<not> truthy (getProp data (ascii ''healthScore'')) \<longrightarrow> healthScore (analysis r) = JSNumber 5)
      \<and> (\<not> truthy (getProp data (ascii ''familyScore'')) \<longrightarrow> familyScore (analysis r) = JSNumber 5)
      \<and> (\<not> truthy (getProp data (ascii ''cryptoScore'')) \<longrightarrow> cryptoScore (analysis r) = JSNumber 5)
      \<and> (\<not> truthy (getProp data (ascii ''summary'')) \<longrightarrow> summary (analysis r) = JSString str_no_summary)
      \<and> (\<not> truthy (getProp data (ascii ''personality'')) \<longrightarrow> personality (analysis r) = JSString str_no_personality)
      \<and> (\<not> truthy (getProp data (ascii ''industry'')) \<longrightarrow> industry (analysis r) = JSString str_none)
      \<and> (\<not> truthy (getProp data (ascii ''fengShui'')) \<longrightarrow> fengShui (analysis r) = JSString str_fengShui_default)
      \<and> (\<not> truthy (getProp data (ascii ''wealth'')) \<longrightarrow> wealth (analysis r) = JSString str_none)
      \<and> (\<not> truthy (getProp data (ascii ''marriage'')) \<longrightarrow> marriage (analysis r) = JSString str_none)
      \<and> (\<not> truthy (getProp data (ascii ''health'')) \<longrightarrow> health (analysis r) = JSString str_none)
      \<and> (\<not> truthy (getProp data (ascii ''family'')) \<longrightarrow> family (analysis r) = JSString str_none)
      \<and> (\<not> truthy (getProp data (ascii ''crypto'')) \<longrightarrow> crypto (analysis r) = JSString str_crypto_default)
      \<and> (\<not> truthy (getProp data (ascii ''cryptoYear'')) \<longrightarrow> cryptoYear (analysis r) = JSString str_cryptoYear_default)
      \<and> (\<not> truthy (getProp data (ascii ''cryptoStyle'')) \<longrightarrow> cryptoStyle (analysis r) = JSString str_cryptoStyle_default)
      \<and> (\<not> truthy (getProp data (ascii ''bazi'')) \<longrightarrow> bazi (analysis r) = JSArray [])"
  by (simp add: validate_fields [OF assms] or_else_def)

text \<open>
  The payload with \<^verbatim>\<open>summaryScore: 0\<close>, \<^verbatim>\<open>summary: ""\<close>, \<^verbatim>\<open>wealthScore: null\<close> and
  \<^verbatim>\<open>health: false\<close>: the four fields come out as their defaults, while the truthy
  \<^verbatim>\<open>cryptoScore: 8\<close> and the string in \<^verbatim>\<open>familyScore\<close> are kept.
\<close>

theorem falsy_fields_get_defaults_witness:
  "getProp payload_falsy_fields (ascii ''summaryScore'') = JSNumber 0
   \<and> getProp payload_falsy_fields (ascii ''summary'') = JSString []
   \<and> getProp payload_falsy_fields (ascii ''wealthScore'') = JSNull
   \<and> getProp payload_falsy_fields (ascii ''health'') = JSBoolean False
   \<and> \<not> isl (validate payload_falsy_fields)
   \<and> summaryScore (analysis (projr (validate payload_falsy_fields))) = JSNumber 5
   \<and> summary (analysis (projr (validate payload_falsy_fields))) = JSString str_no_summary
   \<and> wealthScore (analysis (projr (validate payload_falsy_fields))) = JSNumber 5
   \<and> health (analysis (projr (validate payload_falsy_fields))) = JSString str_none
   \<and> cryptoScore (analysis (projr (validate payload_falsy_fields))) = JSNumber 8
   \<and> familyScore (analysis (projr (validate payload_falsy_fields))) = JSString (ascii ''high'')"
proof -
  have g: "getProp payload_falsy_fields (ascii ''chartPoints'') = JSArray [JSNumber 1]"
    "getProp payload_falsy_fields (ascii ''summaryScore'') = JSNumber 0"
    "getProp payload_falsy_fields (ascii ''summary'') = JSString []"
    "getProp payload_falsy_fields (ascii ''wealthScore'') = JSNull"
    "getProp payload_falsy_fields (ascii ''health'') = JSBoolean False"
    "getProp payload_falsy_fields (ascii ''cryptoScore'') = JSNumber 8"
    "getProp payload_falsy_fields (ascii ''familyScore'') = JSString (ascii ''high'')"
    by (simp_all add: payload_falsy_fields_def ascii_def)
  have n: "\<not> isl (validate payload_falsy_fields)"
    by (simp add: validate_fails_iff g)
  then have v: "validate payload_falsy_fields = Inr (projr (validate payload_falsy_fields))"
    by (cases "validate payload_falsy_fields") simp_all
  have h: "ascii ''high'' \<noteq> []"
    by (simp add: ascii_def)
  show ?thesis
    using falsy_fields_get_defaults [OF v] validate_fields [OF v] n h
    by (simp add: g or_else_def)
qed

section \<open>Properties of the configuration checks\<close>

lemmas eval_config = generateLifeAnalysis_def cleanApiKey_def cleanBaseUrl_def
  stripTrailingSlashes_def hasNonAscii_def buildRequest_def targetModel_def default_model_def

lemmas eval_response = example_env_def example_response_def example_parse_def
  content_only_chartPoints_def payload_only_chartPoints_def handleResponse_def messageContent_def nullish_def opt_chain_def
  validate_def

lemma sent_requests:
  "fst (generateLifeAnalysis env input) = []
   \<or> fst (generateLifeAnalysis env input) = [buildRequest env input]"
  by (simp add: generateLifeAnalysis_def)

lemma nothing_sent_iff:
  "fst (generateLifeAnalysis env input) = [] \<longleftrightarrow>
     cleanApiKey input = [] \<or> hasNonAscii (cleanApiKey input) \<or> cleanBaseUrl input = []"
  by (simp add: generateLifeAnalysis_def)

lemma cleanApiKey_blank: "cleanApiKey input = [] \<longleftrightarrow> blank (apiKey input)"
  by (auto simp: cleanApiKey_def blank_def trim_def trimStart_def split: option.splits)

lemma cleanApiKey_Some: "apiKey input = Some k \<Longrightarrow> cleanApiKey input = trim k"
  by (simp add: cleanApiKey_def trim_def trimStart_def)

lemma cleanBaseUrl_blank: "blank (apiBaseUrl input) \<Longrightarrow> cleanBaseUrl input = []"
  by (auto simp: cleanBaseUrl_def blank_def stripTrailingSlashes_def split: option.splits)

lemma trim_default_model: "trim default_model = default_model"
  by (simp add: default_model_def eval_strings)

lemma default_model_not_Nil: "default_model \<noteq> []"
  by (simp add: default_model_def ascii_def)

lemma targetModel_not_blank: "trim (targetModel input) \<noteq> []"
  using default_model_not_Nil
  by (auto simp: targetModel_def trim_idem trim_default_model split: option.splits)

lemma targetModel_blank: "blank (modelName input) \<Longrightarrow> targetModel input = default_model"
  by (auto simp: targetModel_def blank_def split: option.splits)

lemma hasNonAscii_append: "hasNonAscii (a @ b) \<longleftrightarrow> hasNonAscii a \<or> hasNonAscii b"
  by (simp add: hasNonAscii_def)

lemma bearer_ascii: "\<not> hasNonAscii (ascii ''Bearer '')"
  by (simp add: hasNonAscii_def ascii_def)

lemma sent_authorization:
  assumes "r \<in> set (fst (generateLifeAnalysis env input))"
  shows "authorization r = ascii ''Bearer '' @ cleanApiKey input
       \<and> \<not> hasNonAscii (authorization r)"
proof -
  from assms have "fst (generateLifeAnalysis env input) \<noteq> []" by auto
  then have k: "\<not> hasNonAscii (cleanApiKey input)"
    by (auto simp: generateLifeAnalysis_def split: if_splits)
  from assms sent_requests [of env input] have "r = buildRequest env input" by auto
  then show ?thesis
    using k by (simp add: buildRequest_def hasNonAscii_append bearer_ascii)
qed

lemma sent_user_content:
  "r \<in> set (fst (generateLifeAnalysis env input)) \<Longrightarrow> user_content r = userPrompt input"
  using sent_requests [of env input] by (auto simp: buildRequest_def)

lemma nonascii_outside_trim:
  assumes "\<not> hasNonAscii (trim k)" and "c \<in> set k" and "0x7F < c"
  shows "isWhiteSpace c"
proof -
  obtain l r where lr: "list_all isWhiteSpace l" "list_all isWhiteSpace r" "k = l @ trim k @ r"
    using trim_decomposition by blast
  from assms(1,3) have "c \<notin> set (trim k)"
    by (auto simp: hasNonAscii_def list_ex_iff)
  with assms(2) lr(3) have "c \<in> set l \<or> c \<in> set r"
    by (metis Un_iff set_append)
  with lr(1,2) show ?thesis
    by (auto simp: list_all_iff)
qed

text \<open>
  When the configuration passes and the server's answer leads to parsed content, the
  service returns what the validation returns on it.
\<close>

lemma generateLifeAnalysis_validates:
  assumes "fst (generateLifeAnalysis env input) \<noteq> []"
    and "fetch env (buildRequest env input) = Some resp" and "ok resp"
    and "json_body resp = Some jsonResult" and "messageContent jsonResult = Inr content"
    and "truthy content" and "JSON_parse env content = Some data"
  shows "snd (generateLifeAnalysis env input) = validate data"
  using assms by (auto simp: generateLifeAnalysis_def handleResponse_def split: if_splits)

lemma stripTrailingSlashes_Nil_iff:
  "stripTrailingSlashes s = [] \<longleftrightarrow> list_all (\<lambda>c. c = 0x2F) s"
  by (auto simp: stripTrailingSlashes_def dropWhile_eq_Nil_conv list_all_iff)

lemma stripTrailingSlashes_last:
  assumes "stripTrailingSlashes s \<noteq> []"
  shows "last (stripTrailingSlashes s) \<noteq> 0x2F"
proof -
  from assms have n: "dropWhile (\<lambda>c. c = 0x2F) (rev s) \<noteq> []"
    by (simp add: stripTrailingSlashes_def)
  then have "hd (dropWhile (\<lambda>c. c = 0x2F) (rev s)) \<noteq> 0x2F"
    using hd_dropWhile [OF n] by simp
  with n show ?thesis
    by (simp add: stripTrailingSlashes_def last_rev)
qed

lemma cleanBaseUrl_blank_url: "cleanBaseUrl input = [] \<longleftrightarrow> blank_url (apiBaseUrl input)"
  by (auto simp: cleanBaseUrl_def blank_url_def stripTrailingSlashes_Nil_iff trim_def
      trimStart_def split: option.splits)

lemma cleanBaseUrl_last: "cleanBaseUrl input \<noteq> [] \<Longrightarrow> last (cleanBaseUrl input) \<noteq> 0x2F"
  using stripTrailingSlashes_last
  by (auto simp: cleanBaseUrl_def split: option.splits if_splits)

lemma blank_imp_blank_url: "blank x \<Longrightarrow> blank_url x"
  by (auto simp: blank_def blank_url_def split: option.splits)

lemma targetModel_Some:
  "modelName input = Some m \<Longrightarrow> \<not> blank (Some m) \<Longrightarrow> targetModel input = trim m"
  by (auto simp: targetModel_def blank_def trim_def trimStart_def)

lemma sent_iff:
  "fst (generateLifeAnalysis env input) = [buildRequest env input] \<longleftrightarrow>
     \<not> blank (apiKey input) \<and> \<not> hasNonAscii (cleanApiKey input)
     \<and> \<not> blank_url (apiBaseUrl input)"
  by (simp add: generateLifeAnalysis_def cleanApiKey_blank cleanBaseUrl_blank_url)

lemma missing_key_iff:
  "generateLifeAnalysis env input = ([], Inl MissingApiKey) \<longleftrightarrow> blank (apiKey input)"
  by (simp add: generateLifeAnalysis_def cleanApiKey_blank)

lemma missing_url_iff:
  "generateLifeAnalysis env input = ([], Inl MissingBaseUrl) \<longleftrightarrow>
     \<not> blank (apiKey input) \<and> \<not> hasNonAscii (cleanApiKey input) \<and> blank_url (apiBaseUrl input)"
  by (simp add: generateLifeAnalysis_def cleanApiKey_blank cleanBaseUrl_blank_url)

lemma non_ascii_iff:
  "generateLifeAnalysis env input = ([], Inl NonAsciiApiKey) \<longleftrightarrow> hasNonAscii (cleanApiKey input)"
  by (auto simp: generateLifeAnalysis_def hasNonAscii_def)

lemma sent_request_fields:
  assumes "r \<in> set (fst (generateLifeAnalysis env input))"
  shows "model r = targetModel input" "trim (model r) \<noteq> []"
    "url r = cleanBaseUrl input @ ascii ''/chat/completions''"
    "cleanBaseUrl input \<noteq> []" "last (cleanBaseUrl input) \<noteq> 0x2F"
proof -
  from assms have n: "fst (generateLifeAnalysis env input) \<noteq> []" by auto
  then show u: "cleanBaseUrl input \<noteq> []"
    by (auto simp: generateLifeAnalysis_def split: if_splits)
  then show "last (cleanBaseUrl input) \<noteq> 0x2F" by (rule cleanBaseUrl_last)
  from assms sent_requests [of env input] have r: "r = buildRequest env input" by auto
  then show "model r = targetModel input" "trim (model r) \<noteq> []"
    "url r = cleanBaseUrl input @ ascii ''/chat/completions''"
    by (simp_all add: buildRequest_def targetModel_not_blank)
qed

text \<open>
  Claim C2, as the service has it. The credential and the base address are checked
  before the request. The service ends with the error for a missing credential exactly
  when the credential is absent or blank after trimming, and with the error for a
  missing base address exactly when the credential has passed its two checks and the
  base address is absent or, after trimming, holds nothing but slashes (a blank address
  is such an address): the slashes at its end are stripped before the check. In both
  cases nothing is sent. The request is sent exactly when the credential and the base
  address pass, whatever the model name is; its address is the cleaned base address,
  which does not end with a slash, followed by \<^verbatim>\<open>/chat/completions\<close>. The model name
  is not checked: an absent or blank model name is replaced by the default model, any
  other is trimmed, and the model of a request that is sent is never blank. A blank
  model name is refused only by the form: its submit handler hands the input on only
  when none of the three strings is blank.
\<close>

theorem configuration_checks:
  "(generateLifeAnalysis env input = ([], Inl MissingApiKey) \<longleftrightarrow> blank (apiKey input))
   \<and> (generateLifeAnalysis env input = ([], Inl MissingBaseUrl) \<longleftrightarrow>
        \<not> blank (apiKey input) \<and> \<not> hasNonAscii (cleanApiKey input)
        \<and> blank_url (apiBaseUrl input))
   \<and> (blank (apiBaseUrl input) \<longrightarrow> blank_url (apiBaseUrl input))
   \<and> (blank_url (apiBaseUrl input) \<longrightarrow>
        fst (generateLifeAnalysis env input) = []
        \<and> (snd (generateLifeAnalysis env input) = Inl MissingApiKey
           \<or> snd (generateLifeAnalysis env input) = Inl NonAsciiApiKey
           \<or> snd (generateLifeAnalysis env input) = Inl MissingBaseUrl))
   \<and> (fst (generateLifeAnalysis env input) = [buildRequest env input] \<longleftrightarrow>
        \<not> blank (apiKey input) \<and> \<not> hasNonAscii (cleanApiKey input)
        \<and> \<not> blank_url (apiBaseUrl input))
   \<and> (blank (modelName input) \<longrightarrow> targetModel input = default_model)
   \<and> (modelName input = Some m \<and> \<not> blank (Some m) \<longrightarrow> targetModel input = trim m)
   \<and> (\<forall>r \<in> set (fst (generateLifeAnalysis env input)).
        model r = targetModel input \<and> trim (model r) \<noteq> []
        \<and> url r = cleanBaseUrl input @ ascii ''/chat/completions''
        \<and> cleanBaseUrl input \<noteq> [] \<and> last (cleanBaseUrl input) \<noteq> 0x2F)
   \<and> (handleSubmit input = Inr (Submitted x) \<longrightarrow>
        x = input \<and> \<not> blank (modelName input) \<and> \<not> blank (apiBaseUrl input)
        \<and> \<not> blank (apiKey input))"
proof -
  have 2: "fst (generateLifeAnalysis env input) = []
        \<and> (snd (generateLifeAnalysis env input) = Inl MissingApiKey
           \<or> snd (generateLifeAnalysis env input) = Inl NonAsciiApiKey
           \<or> snd (generateLifeAnalysis env input) = Inl MissingBaseUrl)"
    if "blank_url (apiBaseUrl input)"
    using that by (simp add: generateLifeAnalysis_def cleanBaseUrl_blank_url)
  have 5: "x = input \<and> \<not> blank (modelName input) \<and> \<not> blank (apiBaseUrl input)
        \<and> \<not> blank (apiKey input)"
    if "handleSubmit input = Inr (Submitted x)"
    using that
    by (auto simp: handleSubmit_def blank_def split: option.splits if_splits)
  show ?thesis
    using 2 5 missing_key_iff [of env input] missing_url_iff [of env input]
      sent_iff [of env input] blank_imp_blank_url [of "apiBaseUrl input"]
      targetModel_blank [of input] targetModel_Some [of input m]
      sent_request_fields [of _ env input]
    by blast
qed

text \<open>
  A credential of one space, an absent base address and the base address " / " each end
  with their configuration error and no request; a model name of two spaces gives the
  default model in the service, which sends the request, and an error in the form; the
  form hands the example input on.
\<close>

theorem configuration_checks_witness:
  "blank (apiKey input_blank_key)
   \<and> generateLifeAnalysis example_env input_blank_key = ([], Inl MissingApiKey)
   \<and> blank (apiBaseUrl input_blank_url)
   \<and> generateLifeAnalysis example_env input_blank_url = ([], Inl MissingBaseUrl)
   \<and> \<not> blank (apiBaseUrl input_slash_url) \<and> blank_url (apiBaseUrl input_slash_url)
   \<and> generateLifeAnalysis example_env input_slash_url = ([], Inl MissingBaseUrl)
   \<and> blank (modelName input_blank_model)
   \<and> targetModel input_blank_model = default_model
   \<and> fst (generateLifeAnalysis example_env input_blank_model)
       = [buildRequest example_env input_blank_model]
   \<and> map model (fst (generateLifeAnalysis example_env example_input)) = [ascii ''gpt-4o'']
   \<and> map url (fst (generateLifeAnalysis example_env example_input))
       = [ascii ''https://api.example.com/v1/chat/completions'']
   \<and> handleSubmit input_blank_model = Inr (FormErrors [ModelNameField])
   \<and> handleSubmit example_input = Inr (Submitted example_input)"
proof -
  have a: "blank (apiKey input_blank_key)"
    and b: "blank (apiBaseUrl input_blank_url)"
    and c: "blank (modelName input_blank_model)"
    and d: "\<not> blank (apiBaseUrl input_slash_url)" "blank_url (apiBaseUrl input_slash_url)"
    by (simp_all add: blank_def blank_url_def input_blank_key_def input_blank_url_def
        input_blank_model_def input_slash_url_def eval_strings)
  have k: "\<not> blank (apiKey input_blank_url)" "\<not> hasNonAscii (cleanApiKey input_blank_url)"
    "\<not> blank (apiKey input_slash_url)" "\<not> hasNonAscii (cleanApiKey input_slash_url)"
    "\<not> blank (apiKey input_blank_model)" "\<not> hasNonAscii (cleanApiKey input_blank_model)"
    "\<not> blank_url (apiBaseUrl input_blank_model)"
    by (simp_all add: blank_def blank_url_def cleanApiKey_def hasNonAscii_def
        input_blank_url_def input_slash_url_def input_blank_model_def example_input_def
        eval_strings)
  have e: "map model (fst (generateLifeAnalysis example_env example_input)) = [ascii ''gpt-4o'']"
    "map url (fst (generateLifeAnalysis example_env example_input))
       = [ascii ''https://api.example.com/v1/chat/completions'']"
    by (simp_all add: eval_config example_input_def eval_strings)
  have f: "handleSubmit input_blank_model = Inr (FormErrors [ModelNameField])"
    and g: "handleSubmit example_input = Inr (Submitted example_input)"
    by (simp_all add: handleSubmit_def input_blank_model_def example_input_def eval_strings)
  show ?thesis
    using a b c d k e f g
      configuration_checks [of example_env input_blank_key]
      configuration_checks [of example_env input_blank_url]
      configuration_checks [of example_env input_slash_url]
      configuration_checks [of example_env input_blank_model]
      configuration_checks [of example_env example_input _ example_input]
    by simp
qed

text \<open>
  Claim C2 as stated fails for the model name: with a model name of two spaces, which
  is blank, the service raises no error; it sends the request with the default model
  and returns the result.
\<close>

theorem blank_model_is_replaced:
  "blank (modelName input_blank_model)
   \<and> map model (fst (generateLifeAnalysis example_env input_blank_model))
       = [ascii ''[O]gemini-3-pro-preview'']
   \<and> \<not> isl (snd (generateLifeAnalysis example_env input_blank_model))"
  by (simp add: blank_def eval_config input_blank_model_def example_input_def
      eval_strings eval_response)

lemma userPrompt_apiKey_update: "userPrompt (input\<lparr>apiKey := x\<rparr>) = userPrompt input"
  by (simp add: userPrompt_def prompt_head_def genderStr_def directionExample_def
      startAgeInt_def)

lemma buildRequest_cong:
  assumes "cleanApiKey a = cleanApiKey b" and "cleanBaseUrl a = cleanBaseUrl b"
    and "targetModel a = targetModel b" and "userPrompt a = userPrompt b"
  shows "generateLifeAnalysis env a = generateLifeAnalysis env b"
  using assms by (simp add: generateLifeAnalysis_def buildRequest_def)

lemma surrounding_ws_key:
  assumes "list_all isWhiteSpace l" and "list_all isWhiteSpace r"
    and "apiKey input = Some (l @ k @ r)"
  shows "cleanApiKey input = trim k"
    and "generateLifeAnalysis env input = generateLifeAnalysis env (input\<lparr>apiKey := Some k\<rparr>)"
proof -
  show c: "cleanApiKey input = trim k"
    using assms by (simp add: cleanApiKey_Some trim_surrounding_ws)
  have "cleanApiKey (input\<lparr>apiKey := Some k\<rparr>) = trim k"
    by (simp add: cleanApiKey_Some)
  with c show "generateLifeAnalysis env input
      = generateLifeAnalysis env (input\<lparr>apiKey := Some k\<rparr>)"
    by (intro buildRequest_cong)
       (simp_all add: cleanBaseUrl_def targetModel_def userPrompt_apiKey_update)
qed

text \<open>
  Claim C5, as the service has it. The test for characters outside ASCII is made on the
  trimmed credential: the service ends with the error for an invalid credential, and
  sends nothing, exactly when the trimmed credential has a code unit above 0x7F.
  Whitespace around the credential, inside or outside ASCII (U+3000, U+00A0 and U+FEFF
  are whitespace above 0x7F), changes nothing: the service does on the credential with
  the whitespace exactly what it does on the credential without it. What is sent in
  the \<^verbatim>\<open>Authorization\<close> header is "Bearer " and the trimmed credential, and is pure
  ASCII. So when a request is sent for a credential, every code unit above 0x7F of that
  credential is whitespace that the trimming removed.
\<close>

theorem non_ascii_key_rejected:
  "(generateLifeAnalysis env input = ([], Inl NonAsciiApiKey) \<longleftrightarrow>
      hasNonAscii (cleanApiKey input))
   \<and> (apiKey input = Some k \<longrightarrow> cleanApiKey input = trim k)
   \<and> (apiKey input = Some k \<and> hasNonAscii (trim k) \<longrightarrow>
        generateLifeAnalysis env input = ([], Inl NonAsciiApiKey))
   \<and> (list_all isWhiteSpace l \<and> list_all isWhiteSpace r \<and> apiKey input = Some (l @ k @ r) \<longrightarrow>
        cleanApiKey input = trim k
        \<and> generateLifeAnalysis env input
            = generateLifeAnalysis env (input\<lparr>apiKey := Some k\<rparr>))
   \<and> isWhiteSpace 0x3000 \<and> isWhiteSpace 0x00A0 \<and> isWhiteSpace 0xFEFF
   \<and> hasNonAscii [0x3000] \<and> hasNonAscii [0x00A0] \<and> hasNonAscii [0xFEFF]
   \<and> (\<forall>r \<in> set (fst (generateLifeAnalysis env input)).
        authorization r = ascii ''Bearer '' @ cleanApiKey input
        \<and> \<not> hasNonAscii (authorization r))
   \<and> (apiKey input = Some k \<and> fst (generateLifeAnalysis env input) \<noteq> [] \<longrightarrow>
        cleanApiKey input = trim k \<and> (\<forall>c \<in> set k. 0x7F < c \<longrightarrow> isWhiteSpace c))"
proof -
  have 1: "generateLifeAnalysis env input = ([], Inl NonAsciiApiKey)"
    if "apiKey input = Some k" "hasNonAscii (trim k)"
    using that by (simp add: non_ascii_iff cleanApiKey_Some)
  have 3: "cleanApiKey input = trim k \<and> (\<forall>c \<in> set k. 0x7F < c \<longrightarrow> isWhiteSpace c)"
    if "apiKey input = Some k" "fst (generateLifeAnalysis env input) \<noteq> []"
  proof -
    from that(1) have c: "cleanApiKey input = trim k" by (rule cleanApiKey_Some)
    from that(2) have "\<not> hasNonAscii (cleanApiKey input)"
      by (auto simp: generateLifeAnalysis_def split: if_splits)
    with c show ?thesis
      using nonascii_outside_trim [of k] by auto
  qed
  have 4: "isWhiteSpace 0x3000 \<and> isWhiteSpace 0x00A0 \<and> isWhiteSpace 0xFEFF
   \<and> hasNonAscii [0x3000] \<and> hasNonAscii [0x00A0] \<and> hasNonAscii [0xFEFF]"
    by (simp add: isWhiteSpace_def hasNonAscii_def)
  show ?thesis
    using 1 3 4 non_ascii_iff [of env input] cleanApiKey_Some [of input k]
      surrounding_ws_key(1) [where l = l and r = r and input = input and k = k]
      surrounding_ws_key(2) [where l = l and r = r and input = input and k = k and env = env]
      sent_authorization [of _ env input]
    by blast
qed

text \<open>
  The credential "sk-" U+6D4B U+8BD5 "123" of the specification is rejected before the
  request; for "sk-abc" followed by U+3000, and for "sk-abc" between U+FEFF and U+00A0,
  the service does what it does for "sk-abc": it sends the header "Bearer sk-abc".
\<close>

theorem non_ascii_key_rejected_witness:
  "apiKey input_cjk_key = Some key_cjk \<and> hasNonAscii (trim key_cjk)
   \<and> generateLifeAnalysis example_env input_cjk_key = ([], Inl NonAsciiApiKey)
   \<and> apiKey input_wide_space_key = Some ([] @ ascii ''sk-abc'' @ [0x3000])
   \<and> apiKey input_nbsp_bom_key = Some ([0xFEFF] @ ascii ''sk-abc'' @ [0x00A0])
   \<and> list_all isWhiteSpace [0x3000] \<and> list_all isWhiteSpace [0xFEFF]
   \<and> list_all isWhiteSpace [0x00A0]
   \<and> cleanApiKey input_wide_space_key = ascii ''sk-abc''
   \<and> cleanApiKey input_nbsp_bom_key = ascii ''sk-abc''
   \<and> generateLifeAnalysis example_env input_nbsp_bom_key
       = generateLifeAnalysis example_env example_input
   \<and> generateLifeAnalysis example_env input_wide_space_key
       = generateLifeAnalysis example_env example_input
   \<and> map authorization (fst (generateLifeAnalysis example_env example_input))
       = [ascii ''Bearer sk-abc'']"
proof -
  have a: "apiKey input_cjk_key = Some key_cjk"
    by (simp add: input_cjk_key_def)
  have b: "hasNonAscii (trim key_cjk)"
    by (simp add: key_cjk_def hasNonAscii_def eval_strings)
  have c: "apiKey input_wide_space_key = Some ([] @ ascii ''sk-abc'' @ [0x3000])"
    "apiKey input_nbsp_bom_key = Some ([0xFEFF] @ ascii ''sk-abc'' @ [0x00A0])"
    by (simp_all add: input_wide_space_key_def key_wide_space_def input_nbsp_bom_key_def
        key_nbsp_bom_def)
  have w: "list_all isWhiteSpace []" "list_all isWhiteSpace [0x3000]"
    "list_all isWhiteSpace [0xFEFF]" "list_all isWhiteSpace [0x00A0]"
    by (simp_all add: isWhiteSpace_def)
  have e: "input_wide_space_key\<lparr>apiKey := Some (ascii ''sk-abc'')\<rparr> = example_input"
    "input_nbsp_bom_key\<lparr>apiKey := Some (ascii ''sk-abc'')\<rparr> = example_input"
    by (simp_all add: input_wide_space_key_def input_nbsp_bom_key_def example_input_def)
  have t: "trim (ascii ''sk-abc'') = ascii ''sk-abc''"
    by (simp add: eval_strings)
  have s: "map authorization (fst (generateLifeAnalysis example_env example_input))
       = [ascii ''Bearer sk-abc'']"
    by (simp add: eval_config example_input_def eval_strings)
  show ?thesis
    using a b c w s
      non_ascii_key_rejected [of example_env input_cjk_key key_cjk "[]" "[]"]
      non_ascii_key_rejected [of example_env input_wide_space_key "ascii ''sk-abc''" "[]" "[0x3000]"]
      non_ascii_key_rejected [of example_env input_nbsp_bom_key "ascii ''sk-abc''" "[0xFEFF]" "[0x00A0]"]
    by (simp add: e t)
qed

text \<open>
  Claim C5 as stated fails for a credential whose only character outside ASCII is
  surrounding whitespace: "sk-abc" followed by the ideographic space U+3000 contains a
  code unit above 0x7F, yet no error is raised; the request is sent with the header
  "Bearer sk-abc" and the result is returned.
\<close>

theorem wide_space_key_is_sent:
  "hasNonAscii key_wide_space
   \<and> apiKey input_wide_space_key = Some key_wide_space
   \<and> map authorization (fst (generateLifeAnalysis example_env input_wide_space_key))
       = [ascii ''Bearer sk-abc'']
   \<and> \<not> isl (snd (generateLifeAnalysis example_env input_wide_space_key))"
  by (simp add: eval_config input_wide_space_key_def key_wide_space_def example_input_def
      eval_strings eval_response)

section \<open>Properties of the age bands in the request\<close>

lemmas eval_parseInt = parseInt_def trimStart_def isWhiteSpace_def ascii_def isRadixDigit_def
  digitValue_def radixValue_def

lemmas eval_show_int = show_int_def digits.simps digitChar_def ascii_def

lemma unat_digitChar: "d < 10 \<Longrightarrow> unat (digitChar d) = 48 + d"
  unfolding digitChar_def unat_of_nat by simp

lemma digitValue_digitChar: "d < 10 \<Longrightarrow> digitValue (digitChar d) = Some d"
  using unat_digitChar [of d] by (simp add: digitValue_def word_le_nat_alt)

lemma isRadixDigit_digitChar: "d < 10 \<Longrightarrow> isRadixDigit 10 (digitChar d)"
  by (simp add: isRadixDigit_def digitValue_digitChar)

lemma decimal_digit_range:
  assumes "isRadixDigit 10 c"
  shows "48 \<le> unat c \<and> unat c \<le> 57"
  using assms
  by (auto simp: isRadixDigit_def digitValue_def word_le_nat_alt split: if_splits)

lemma decimal_digit_plain:
  assumes "isRadixDigit 10 c"
  shows "\<not> isWhiteSpace c" "c \<noteq> 0x2D" "c \<noteq> 0x2B" "c \<noteq> 0x78" "c \<noteq> 0x58"
  using decimal_digit_range [OF assms]
  by (auto simp: isWhiteSpace_def word_le_nat_alt word_unat_eq_iff)

lemma parseInt_decimal:
  assumes "list_all (isRadixDigit 10) s" and "s \<noteq> []"
  shows "parseInt s = Some (int (radixValue 10 s))"
    and "parseInt (0x2D # s) = Some (- int (radixValue 10 s))"
proof -
  from assms obtain c cs where s: "s = c # cs" and c: "isRadixDigit 10 c"
    and cs: "list_all (isRadixDigit 10) cs"
    by (cases s) auto
  have h: "take 2 s \<noteq> [0x30, 0x78]" "take 2 s \<noteq> [0x30, 0x58]"
    using cs decimal_digit_plain(4,5) by (cases cs; auto simp: s)+
  have z: "takeWhile (isRadixDigit 10) s = s"
    using assms(1) by (simp add: list_all_iff)
  have "\<not> isWhiteSpace 0x2D"
    by (simp add: isWhiteSpace_def)
  then have t: "trimStart s = s" "trimStart (0x2D # s) = 0x2D # s"
    using decimal_digit_plain(1) [OF c] by (simp_all add: trimStart_def s)
  have p: "take 1 s \<noteq> [0x2D]" "take 1 s \<noteq> [0x2B]"
    using decimal_digit_plain(2,3) [OF c] by (simp_all add: s)
  show "parseInt s = Some (int (radixValue 10 s))"
    unfolding parseInt_def Let_def t using h p assms(2) by (simp add: z)
  show "parseInt (0x2D # s) = Some (- int (radixValue 10 s))"
    unfolding parseInt_def Let_def t using h assms(2) by (simp add: z)
qed

lemma digits_not_Nil: "digits n \<noteq> []"
  by (subst digits.simps) simp

lemma digits_all_digits: "list_all (isRadixDigit 10) (digits n)"
proof (induction n rule: digits.induct)
  case (1 n)
  show ?case
  proof (cases "n < 10")
    case True
    then show ?thesis by (subst digits.simps) (simp add: isRadixDigit_digitChar)
  next
    case False
    with 1 show ?thesis by (subst digits.simps) (simp add: isRadixDigit_digitChar)
  qed
qed

lemma radixValue_snoc:
  "radixValue R (xs @ [c]) =
     radixValue R xs * R + (case digitValue c of Some d \<Rightarrow> d | None \<Rightarrow> 0)"
  by (simp add: radixValue_def)

lemma radixValue_digits: "radixValue 10 (digits n) = n"
proof (induction n rule: digits.induct)
  case (1 n)
  show ?case
  proof (cases "n < 10")
    case True
    then show ?thesis by (subst digits.simps) (simp add: radixValue_def digitValue_digitChar)
  next
    case False
    with 1 have "radixValue 10 (digits (n div 10)) = n div 10" by simp
    with False show ?thesis
      by (subst digits.simps) (simp add: radixValue_snoc digitValue_digitChar)
  qed
qed

text \<open>
  The text of an integer in the request reads back, with \<^verbatim>\<open>parseInt\<close>, as that integer.
\<close>

lemma parseInt_show_int: "parseInt (show_int n) = Some n"
  using parseInt_decimal [OF digits_all_digits digits_not_Nil]
  by (simp add: show_int_def radixValue_digits)

lemma string_includes_iff: "string_includes s t \<longleftrightarrow> (\<exists>pre post. s = pre @ t @ post)"
proof (induction s)
  case Nil
  then show ?case by auto
next
  case (Cons x xs)
  show ?case
  proof
    assume "string_includes (x # xs) t"
    then consider "take (length t) (x # xs) = t" | "string_includes xs t" by auto
    then show "\<exists>pre post. x # xs = pre @ t @ post"
    proof cases
      case 1
      then have "x # xs = [] @ t @ drop (length t) (x # xs)"
        by (metis append_Nil append_take_drop_id)
      then show ?thesis by blast
    next
      case 2
      with Cons obtain pre post where "xs = pre @ t @ post" by blast
      then have "x # xs = (x # pre) @ t @ post" by simp
      then show ?thesis by blast
    qed
  next
    assume "\<exists>pre post. x # xs = pre @ t @ post"
    then obtain pre post where p: "x # xs = pre @ t @ post" by blast
    show "string_includes (x # xs) t"
    proof (cases pre)
      case Nil
      with p have "take (length t) (x # xs) = t" by simp
      then show ?thesis by simp
    next
      case (Cons y ys)
      with p have "xs = ys @ t @ post" by simp
      with Cons.IH show ?thesis by auto
    qed
  qed
qed

lemmas tpl_defs = tpl_0_def tpl_1_def tpl_2_def tpl_3_def tpl_4_def tpl_5_def tpl_6_def
  tpl_7_def tpl_8_def tpl_9_def tpl_10_def tpl_11_def tpl_12_def tpl_13_def tpl_14_def
  tpl_age_1_to_def tpl_childhood_def tpl_age_def tpl_to_def tpl_step1_def tpl_step1_end_def
  tpl_step2_def tpl_step3_def tpl_tail_def str_male_def str_female_def str_name_missing_def
  str_yang_def str_yin_def str_example_forward_def str_example_backward_def
  str_forward_def str_backward_def

lemmas eval_prompt = userPrompt_def prompt_head_def age_band_lines_def tpl_defs
  genderStr_def directionExample_def daYunDirectionStr_def isForward_def getStemPolarity_def
  array_includes_def firstChar_def charAt_def yangStems_def yinStems_def
  startAgeInt_def parseInt_def isRadixDigit_def digitValue_def radixValue_def
  show_int_def digits.simps digitChar_def ascii_def trim_def trimStart_def isWhiteSpace_def

lemma tail_starts_with_and_so_on: "take (length tpl_and_so_on) tpl_tail = tpl_and_so_on"
  by (simp add: tpl_and_so_on_def tpl_tail_def ascii_def)

lemma age_band_lines_decades:
  "age_band_lines f n =
     tpl_age_1_to @ show_int (n - 1) @ tpl_childhood
     @ decade_band_line n 1 (tpl_step1 @ f @ tpl_step1_end)
     @ decade_band_line n 2 tpl_step2
     @ decade_band_line n 3 tpl_step3"
  by (simp add: age_band_lines_def decade_band_line_def add.commute)

text \<open>
  Claim C8, as the service has it. When the start age parses to a non-zero integer \<open>n\<close>
  (in the range where the doubles of the source are exact), the user message of the
  request is the head of the prompt, the age-band lines for \<open>n\<close> and the tail. The
  age-band lines are "Age 1 to \<open>n - 1\<close>" for the childhood limit, followed for
  \<open>k = 1, 2, 3\<close> and no further by the line of the \<open>k\<close>-th decade band, from
  \<open>n + 10 * (k - 1)\<close> to \<open>n + 10 * (k - 1) + 9\<close>, all written as decimal integers (the
  text of an integer \<open>m\<close> reads back as \<open>m\<close>). The tail is a constant text, the same for
  every start age, that begins with the line "and so on until age 100": the bands
  after the third are left to that line.
\<close>

theorem band_boundaries_from_startAge:
  assumes "parseInt (startAge input) = Some n" and "n \<noteq> 0" and "safe_age n"
  shows "startAgeInt input = n
       \<and> userPrompt input = prompt_head input @ age_band_lines (firstDaYun input) n @ tpl_tail
       \<and> age_band_lines (firstDaYun input) n =
           tpl_age_1_to @ show_int (n - 1) @ tpl_childhood
           @ decade_band_line n 1 (tpl_step1 @ firstDaYun input @ tpl_step1_end)
           @ decade_band_line n 2 tpl_step2
           @ decade_band_line n 3 tpl_step3
       \<and> (\<forall>r \<in> set (fst (generateLifeAnalysis env input)). user_content r = userPrompt input)
       \<and> parseInt (show_int m) = Some m
       \<and> take (length tpl_and_so_on) tpl_tail = tpl_and_so_on"
proof -
  have "startAgeInt input = n"
    using assms by (simp add: startAgeInt_def)
  then show ?thesis
    using sent_user_content [of _ env input]
    by (simp add: userPrompt_def age_band_lines_decades parseInt_show_int
        tail_starts_with_and_so_on)
qed

text \<open>
  The example of the specification: with the start age "3" the request says
  "Age 1 to 2" for the childhood limit, "Age 3 to 12" for the first decade pillar
  U+4E01 U+536F, "Age 13 to 22" for the second and "Age 23 to 32" for the third.
\<close>

theorem band_boundaries_from_startAge_witness:
  "parseInt (startAge example_input) = Some 3 \<and> safe_age 3
   \<and> decade_band_line 3 2 tpl_step2 = tpl_age @ ascii ''13'' @ tpl_to @ ascii ''22'' @ tpl_step2
   \<and> map user_content (fst (generateLifeAnalysis example_env example_input)) =
       [prompt_head example_input
        @ tpl_age_1_to @ ascii ''2'' @ tpl_childhood
        @ tpl_age @ ascii ''3'' @ tpl_to @ ascii ''12''
        @ tpl_step1 @ [0x4E01, 0x536F] @ tpl_step1_end
        @ tpl_age @ ascii ''13'' @ tpl_to @ ascii ''22'' @ tpl_step2
        @ tpl_age @ ascii ''23'' @ tpl_to @ ascii ''32'' @ tpl_step3
        @ tpl_tail]"
proof -
  have p: "parseInt (startAge example_input) = Some 3"
    by (simp add: example_input_def eval_parseInt)
  have s: "safe_age 3"
    by (simp add: safe_age_def)
  have f: "firstDaYun example_input = [0x4E01, 0x536F]"
    by (simp add: example_input_def)
  have d: "show_int 2 = ascii ''2''" "show_int 3 = ascii ''3''" "show_int 12 = ascii ''12''"
    "show_int 13 = ascii ''13''" "show_int 22 = ascii ''22''" "show_int 23 = ascii ''23''"
    "show_int 32 = ascii ''32''"
    by (simp_all add: eval_show_int)
  have b: "decade_band_line 3 2 tpl_step2 = tpl_age @ ascii ''13'' @ tpl_to @ ascii ''22'' @ tpl_step2"
    by (simp add: decade_band_line_def d)
  have r: "fst (generateLifeAnalysis example_env example_input)
         = [buildRequest example_env example_input]"
    by (simp add: eval_config example_input_def eval_strings)
  from band_boundaries_from_startAge [OF p _ s, of example_env]
  have "userPrompt example_input
      = prompt_head example_input @ age_band_lines (firstDaYun example_input) 3 @ tpl_tail"
    by simp
  then have "user_content (buildRequest example_env example_input) =
       prompt_head example_input
        @ tpl_age_1_to @ ascii ''2'' @ tpl_childhood
        @ tpl_age @ ascii ''3'' @ tpl_to @ ascii ''12''
        @ tpl_step1 @ [0x4E01, 0x536F] @ tpl_step1_end
        @ tpl_age @ ascii ''13'' @ tpl_to @ ascii ''22'' @ tpl_step2
        @ tpl_age @ ascii ''23'' @ tpl_to @ ascii ''32'' @ tpl_step3
        @ tpl_tail"
    by (simp add: buildRequest_def f d age_band_lines_def)
  then show ?thesis
    using p s b by (simp add: r)
qed

text \<open>
  Claim C8 as stated fails for the decade bands after the third. With the start age
  "3" the fourth band would run from 33 to 42; the request that is sent holds the
  lines of the second and third band ("Age 13", "Age 23"), but neither "33" nor "42"
  occurs anywhere in it.
\<close>

theorem later_bands_not_embedded:
  "parseInt (startAge example_input) = Some 3
   \<and> map user_content (fst (generateLifeAnalysis example_env example_input))
       = [userPrompt example_input]
   \<and> string_includes (userPrompt example_input) (ascii ''Age 13'')
   \<and> string_includes (userPrompt example_input) (ascii ''Age 23'')
   \<and> \<not> string_includes (userPrompt example_input) (ascii ''33'')
   \<and> \<not> string_includes (userPrompt example_input) (ascii ''42'')"
proof -
  have p: "parseInt (startAge example_input) = Some 3"
    by (simp add: example_input_def eval_parseInt)
  have r: "map user_content (fst (generateLifeAnalysis example_env example_input))
       = [userPrompt example_input]"
    by (simp add: eval_config example_input_def eval_strings)
  have a: "string_includes (userPrompt example_input) (ascii ''Age 13'')"
    by (simp add: example_input_def eval_prompt)
  have b: "string_includes (userPrompt example_input) (ascii ''Age 23'')"
    by (simp add: example_input_def eval_prompt)
  have c: "\<not> string_includes (userPrompt example_input) (ascii ''33'')"
    by (simp add: example_input_def eval_prompt)
  have d: "\<not> string_includes (userPrompt example_input) (ascii ''42'')"
    by (simp add: example_input_def eval_prompt)
  from p r a b c d show ?thesis by blast
qed

text \<open>
  Claim C10. When the start age does not parse to a non-zero integer (\<^verbatim>\<open>parseInt\<close>
  gives NaN or zero), \<^verbatim>\<open>startAgeInt\<close> is 1, as it is for the start age "1", and the
  age-band lines of the request are those of start age 1: "Age 1 to 0", "Age 1 to 10",
  "Age 11 to 20", "Age 21 to 30". The prompt is the prompt for the start age "1" except
  in its head, where the start age is repeated as typed. No error comes from the start
  age: the request is sent unless one of the three configuration checks fails.
\<close>

theorem unparsable_startAge_is_one:
  assumes "parseInt (startAge input) = None \<or> parseInt (startAge input) = Some 0"
  shows "startAgeInt input = 1
       \<and> startAgeInt (input\<lparr>startAge := ascii ''1''\<rparr>) = 1
       \<and> userPrompt input = prompt_head input @ age_band_lines (firstDaYun input) 1 @ tpl_tail
       \<and> userPrompt (input\<lparr>startAge := ascii ''1''\<rparr>) =
           prompt_head (input\<lparr>startAge := ascii ''1''\<rparr>)
           @ age_band_lines (firstDaYun input) 1 @ tpl_tail
       \<and> age_band_lines (firstDaYun input) 1 =
           tpl_age_1_to @ ascii ''0'' @ tpl_childhood
           @ tpl_age @ ascii ''1'' @ tpl_to @ ascii ''10''
           @ tpl_step1 @ firstDaYun input @ tpl_step1_end
           @ tpl_age @ ascii ''11'' @ tpl_to @ ascii ''20'' @ tpl_step2
           @ tpl_age @ ascii ''21'' @ tpl_to @ ascii ''30'' @ tpl_step3
       \<and> (fst (generateLifeAnalysis env input) = [] \<longleftrightarrow>
            cleanApiKey input = [] \<or> hasNonAscii (cleanApiKey input) \<or> cleanBaseUrl input = [])
       \<and> (\<forall>r \<in> set (fst (generateLifeAnalysis env input)).
            user_content r = prompt_head input @ age_band_lines (firstDaYun input) 1 @ tpl_tail)"
proof -
  have 1: "startAgeInt input = 1"
    using assms by (auto simp: startAgeInt_def)
  have 2: "startAgeInt (input\<lparr>startAge := ascii ''1''\<rparr>) = 1"
    by (simp add: startAgeInt_def eval_parseInt)
  have d: "show_int 0 = ascii ''0''" "show_int 1 = ascii ''1''" "show_int 10 = ascii ''10''"
    "show_int 11 = ascii ''11''" "show_int 20 = ascii ''20''" "show_int 21 = ascii ''21''"
    "show_int 30 = ascii ''30''"
    by (simp_all add: eval_show_int)
  have 3: "userPrompt input = prompt_head input @ age_band_lines (firstDaYun input) 1 @ tpl_tail"
    by (simp add: userPrompt_def 1)
  have 4: "userPrompt (input\<lparr>startAge := ascii ''1''\<rparr>) =
           prompt_head (input\<lparr>startAge := ascii ''1''\<rparr>)
           @ age_band_lines (firstDaYun input) 1 @ tpl_tail"
    unfolding userPrompt_def 2 by simp
  have 5: "age_band_lines (firstDaYun input) 1 =
           tpl_age_1_to @ ascii ''0'' @ tpl_childhood
           @ tpl_age @ ascii ''1'' @ tpl_to @ ascii ''10''
           @ tpl_step1 @ firstDaYun input @ tpl_step1_end
           @ tpl_age @ ascii ''11'' @ tpl_to @ ascii ''20'' @ tpl_step2
           @ tpl_age @ ascii ''21'' @ tpl_to @ ascii ''30'' @ tpl_step3"
    unfolding age_band_lines_def by (simp add: d)
  have 6: "\<forall>r \<in> set (fst (generateLifeAnalysis env input)).
            user_content r = prompt_head input @ age_band_lines (firstDaYun input) 1 @ tpl_tail"
    using sent_user_content [of _ env input] 3 by simp
  show ?thesis
    using 1 2 3 4 5 6 nothing_sent_iff [of env input] by blast
qed

text \<open>
  The three start ages of the claim: the empty string and "abc" do not parse, "0"
  parses to zero; each gives the start age 1, and with the empty start age the request
  is sent.
\<close>

theorem unparsable_startAge_is_one_witness:
  "parseInt [] = None \<and> parseInt (ascii ''abc'') = None \<and> parseInt (ascii ''0'') = Some 0
   \<and> startAgeInt (example_input\<lparr>startAge := []\<rparr>) = 1
   \<and> startAgeInt (example_input\<lparr>startAge := ascii ''abc''\<rparr>) = 1
   \<and> startAgeInt (example_input\<lparr>startAge := ascii ''0''\<rparr>) = 1
   \<and> fst (generateLifeAnalysis example_env (example_input\<lparr>startAge := []\<rparr>)) \<noteq> []"
proof -
  have a: "parseInt (startAge (example_input\<lparr>startAge := []\<rparr>)) = None"
    and b: "parseInt (startAge (example_input\<lparr>startAge := ascii ''abc''\<rparr>)) = None"
    and c: "parseInt (startAge (example_input\<lparr>startAge := ascii ''0''\<rparr>)) = Some 0"
    by (simp_all add: eval_parseInt)
  have k: "cleanApiKey (example_input\<lparr>startAge := []\<rparr>) = ascii ''sk-abc''"
    "cleanBaseUrl (example_input\<lparr>startAge := []\<rparr>) = ascii ''https://api.example.com/v1''"
    by (simp_all add: cleanApiKey_def cleanBaseUrl_def stripTrailingSlashes_def example_input_def
        eval_strings)
  have h: "\<not> hasNonAscii (ascii ''sk-abc'')" "ascii ''sk-abc'' \<noteq> []"
    "ascii ''https://api.example.com/v1'' \<noteq> []"
    by (simp_all add: hasNonAscii_def ascii_def)
  show ?thesis
    using a b c h
      unparsable_startAge_is_one [of "example_input\<lparr>startAge := []\<rparr>" example_env]
      unparsable_startAge_is_one [of "example_input\<lparr>startAge := ascii ''abc''\<rparr>" example_env]
      unparsable_startAge_is_one [of "example_input\<lparr>startAge := ascii ''0''\<rparr>" example_env]
    by (simp add: k)
qed

end
